theory Spec2Isabelle
  imports Complex_Main
begin

section \<open>JavaScript numbers as IEEE 754 doubles\<close>

text \<open>
  The metric code computes on JavaScript numbers, which are IEEE 754 binary64 values. A
  number is modelled as a finite value, which is \<open>+0\<close> or a non-zero double written as
  the real number it stands for, or as one of \<open>-0\<close>, \<open>+Infinity\<close>, \<open>-Infinity\<close>
  and \<open>NaN\<close>. Every arithmetic operation computes the exact real result and rounds it
  to the nearest double, a tie going to the even significand, as the language prescribes.
\<close>

datatype double = Fin real | NegZero | PosInf | NegInf | NotANumber

text \<open>The integer nearest to \<open>q\<close>, a tie going to the even one.\<close>

definition rne :: "real \<Rightarrow> int" where
  "rne q =
     (let f = \<lfloor>q\<rfloor>; r = q - of_int f
      in if r < 1 / 2 then f else if 1 / 2 < r then f + 1 else if even f then f else f + 1)"

text \<open>
  The exponent of the binade of a positive number \<open>a\<close>: the least \<open>e\<close> from
  \<open>-1022\<close> on with \<open>a < 2^(e+1)\<close>, found by counting up. The doubles in
  \<open>[2^e, 2^(e+1))\<close> are the multiples of \<open>2^(e-52)\<close>, and below \<open>2^(-1022)\<close>
  the subnormal doubles are the multiples of \<open>2^(-1074)\<close>.
\<close>

function binade_from :: "real \<Rightarrow> int \<Rightarrow> int" where
  "binade_from a e = (if 2 powi (e + 1) \<le> a then binade_from a (e + 1) else e)"
  by pat_completeness auto
termination
proof (relation "measure (\<lambda>(a, e). nat (\<lfloor>log 2 a\<rfloor> - e))")
  show "wf (measure (\<lambda>(a, e). nat (\<lfloor>log 2 a\<rfloor> - e)))" by simp
next
  fix a :: real and e :: int
  assume h: "2 powi (e + 1) \<le> a"
  have "(0::real) < 2 powi (e + 1)" by simp
  with h have a: "0 < a" by linarith
  have "(2::real) powr real_of_int (e + 1) = 2 powi (e + 1)"
    by (rule powr_real_of_int') simp_all
  with h a have "real_of_int (e + 1) \<le> log 2 a"
    using le_log_iff [of 2 a "real_of_int (e + 1)"] by simp
  then have "e + 1 \<le> \<lfloor>log 2 a\<rfloor>" by (simp only: le_floor_iff)
  then show "((a, e + 1), (a, e)) \<in> measure (\<lambda>(a, e). nat (\<lfloor>log 2 a\<rfloor> - e))" by simp
qed

declare binade_from.simps [simp del]

definition binade :: "real \<Rightarrow> int" where
  "binade a = binade_from a (- 1022)"

text \<open>
  \<open>2^1024\<close>, the first power of two above every finite double. The largest finite
  double is \<open>2^1024 - 2^971\<close>.
\<close>

definition huge :: real where
  "huge = 2 ^ 1024"

text \<open>
  Rounding of a real number to a double: the magnitude is rounded to the nearest multiple
  of the spacing of its binade; a magnitude that rounds to \<open>2^1024\<close> overflows to an
  infinity, and one that rounds to nothing gives a zero of the sign of the number.
\<close>

definition rnd :: "real \<Rightarrow> double" where
  "rnd x =
     (if x = 0 then Fin 0
      else let a = \<bar>x\<bar>;
               u = 2 powi (binade a - 52);
               m = of_int (rne (a / u)) * u
           in if huge \<le> m then (if x < 0 then NegInf else PosInf)
              else if m = 0 then (if x < 0 then NegZero else Fin 0)
              else Fin (if x < 0 then - m else m))"

text \<open>The rounded magnitude of a positive number.\<close>

definition mag :: "real \<Rightarrow> real" where
  "mag x = of_int (rne (x / 2 powi (binade x - 52))) * 2 powi (binade x - 52)"

fun is_nan :: "double \<Rightarrow> bool" where
  "is_nan NotANumber = True"
| "is_nan _ = False"

fun is_inf :: "double \<Rightarrow> bool" where
  "is_inf PosInf = True"
| "is_inf NegInf = True"
| "is_inf _ = False"

fun is_zero :: "double \<Rightarrow> bool" where
  "is_zero (Fin a) = (a = 0)"
| "is_zero NegZero = True"
| "is_zero _ = False"

text \<open>The sign bit: true for the negative numbers, \<open>-0\<close> and \<open>-Infinity\<close>.\<close>

fun sign_bit :: "double \<Rightarrow> bool" where
  "sign_bit (Fin a) = (a < 0)"
| "sign_bit NegZero = True"
| "sign_bit NegInf = True"
| "sign_bit _ = False"

fun val :: "double \<Rightarrow> real" where
  "val (Fin a) = a"
| "val _ = 0"

definition zero_of :: "bool \<Rightarrow> double" where
  "zero_of negative = (if negative then NegZero else Fin 0)"

definition inf_of :: "bool \<Rightarrow> double" where
  "inf_of negative = (if negative then NegInf else PosInf)"

text \<open>\<open>Number.isFinite\<close>: the finite doubles are below \<open>2^1024\<close> in magnitude.\<close>

fun is_finite :: "double \<Rightarrow> bool" where
  "is_finite (Fin a) = (\<bar>a\<bar> < huge)"
| "is_finite NegZero = True"
| "is_finite _ = False"

fun d_neg :: "double \<Rightarrow> double" where
  "d_neg (Fin a) = (if a = 0 then NegZero else Fin (- a))"
| "d_neg NegZero = Fin 0"
| "d_neg PosInf = NegInf"
| "d_neg NegInf = PosInf"
| "d_neg NotANumber = NotANumber"

text \<open>
  Addition. Infinities of opposite signs give \<open>NaN\<close>; \<open>-0 + -0\<close> is \<open>-0\<close>, and
  every other sum that is exactly zero is \<open>+0\<close>.
\<close>

fun d_add :: "double \<Rightarrow> double \<Rightarrow> double" where
  "d_add NotANumber _ = NotANumber"
| "d_add _ NotANumber = NotANumber"
| "d_add PosInf NegInf = NotANumber"
| "d_add NegInf PosInf = NotANumber"
| "d_add PosInf _ = PosInf"
| "d_add _ PosInf = PosInf"
| "d_add NegInf _ = NegInf"
| "d_add _ NegInf = NegInf"
| "d_add NegZero NegZero = NegZero"
| "d_add NegZero (Fin b) = Fin b"
| "d_add (Fin a) NegZero = Fin a"
| "d_add (Fin a) (Fin b) = rnd (a + b)"

text \<open>Subtraction is the addition of the negated number.\<close>

definition d_sub :: "double \<Rightarrow> double \<Rightarrow> double" where
  "d_sub x y = d_add x (d_neg y)"

text \<open>
  Multiplication and division. The sign of the result is the exclusive or of the signs of
  the operands; \<open>0 * Infinity\<close>, \<open>0 / 0\<close> and \<open>Infinity / Infinity\<close> are
  \<open>NaN\<close>, and a non-zero number divided by a zero is an infinity.
\<close>

definition d_mul :: "double \<Rightarrow> double \<Rightarrow> double" where
  "d_mul x y =
     (if is_nan x \<or> is_nan y then NotANumber
      else if (is_inf x \<and> is_zero y) \<or> (is_zero x \<and> is_inf y) then NotANumber
      else if is_inf x \<or> is_inf y then inf_of (sign_bit x \<noteq> sign_bit y)
      else if is_zero x \<or> is_zero y then zero_of (sign_bit x \<noteq> sign_bit y)
      else rnd (val x * val y))"

definition d_div :: "double \<Rightarrow> double \<Rightarrow> double" where
  "d_div x y =
     (if is_nan x \<or> is_nan y then NotANumber
      else if (is_inf x \<and> is_inf y) \<or> (is_zero x \<and> is_zero y) then NotANumber
      else if is_inf x \<or> is_zero y then inf_of (sign_bit x \<noteq> sign_bit y)
      else if is_zero x \<or> is_inf y then zero_of (sign_bit x \<noteq> sign_bit y)
      else rnd (val x / val y))"

text \<open>
  \<open>Math.round\<close>: the nearest integer, a tie going up; \<open>-0\<close> for \<open>-0\<close> and for the
  numbers from \<open>-0.5\<close> up to zero. The nearest integer of a double is a double, so
  nothing is rounded to 53 bits here.
\<close>

fun Math_round :: "double \<Rightarrow> double" where
  "Math_round (Fin a) =
     (if a < 0 \<and> - (1 / 2) \<le> a then NegZero else Fin (of_int \<lfloor>a + 1 / 2\<rfloor>))"
| "Math_round x = x"

text \<open>
  \<open>Math.max\<close> of two arguments: \<open>NaN\<close> as soon as one argument is, and \<open>+0\<close>
  counts as larger than \<open>-0\<close>.
\<close>

fun Math_max :: "double \<Rightarrow> double \<Rightarrow> double" where
  "Math_max NotANumber _ = NotANumber"
| "Math_max _ NotANumber = NotANumber"
| "Math_max PosInf _ = PosInf"
| "Math_max _ PosInf = PosInf"
| "Math_max NegInf y = y"
| "Math_max x NegInf = x"
| "Math_max NegZero NegZero = NegZero"
| "Math_max NegZero (Fin b) = (if b < 0 then NegZero else Fin b)"
| "Math_max (Fin a) NegZero = (if a < 0 then NegZero else Fin a)"
| "Math_max (Fin a) (Fin b) = Fin (max a b)"

text \<open>A number in a condition: the zeros and \<open>NaN\<close> count as false.\<close>

fun truthy :: "double \<Rightarrow> bool" where
  "truthy (Fin a) = (a \<noteq> 0)"
| "truthy NegZero = False"
| "truthy NotANumber = False"
| "truthy _ = True"

text \<open>
  The comparisons \<open>x <= y\<close> and \<open>x < y\<close>: false as soon as one side is \<open>NaN\<close>;
  the two zeros are equal.
\<close>

fun d_le :: "double \<Rightarrow> double \<Rightarrow> bool" where
  "d_le NotANumber _ = False"
| "d_le _ NotANumber = False"
| "d_le NegInf _ = True"
| "d_le _ PosInf = True"
| "d_le PosInf _ = False"
| "d_le _ NegInf = False"
| "d_le x y = (val x \<le> val y)"

fun d_lt :: "double \<Rightarrow> double \<Rightarrow> bool" where
  "d_lt NotANumber _ = False"
| "d_lt _ NotANumber = False"
| "d_lt PosInf _ = False"
| "d_lt _ NegInf = False"
| "d_lt NegInf _ = True"
| "d_lt _ PosInf = True"
| "d_lt x y = (val x < val y)"

text \<open>An optional field that is absent reads \<open>undefined\<close>, which arithmetic takes as \<open>NaN\<close>.\<close>

fun to_number :: "double option \<Rightarrow> double" where
  "to_number None = NotANumber"
| "to_number (Some x) = x"

text \<open>
  \<open>Math.PI\<close> is the double nearest to \<open>pi\<close>, which is
  \<open>884279719003555 / 2^48\<close> (3.141592653589793). The literals of the source that are
  doubles (20, 60, 10, 0.5, 1.5, ...) are written \<open>Fin\<close>; 0.9, 0.8 and 0.1 are not
  doubles, and the source text denotes the doubles \<open>rnd 0.9\<close>, \<open>rnd 0.8\<close> and
  \<open>rnd 0.1\<close>.
\<close>

definition Math_PI_double :: double where
  "Math_PI_double = Fin (884279719003555 / 281474976710656)"

text \<open>
  \<open>Math.sin\<close> is left to the implementation by the language definition (an
  approximation of the sine, of unspecified accuracy), so the functions below take it as
  a parameter \<open>msin\<close>. One admissible \<open>Math.sin\<close> is the correctly rounded sine.
\<close>

fun Math_sin_rounded :: "double \<Rightarrow> double" where
  "Math_sin_rounded (Fin a) = rnd (sin a)"
| "Math_sin_rounded NegZero = NegZero"
| "Math_sin_rounded _ = NotANumber"

section \<open>Exact numbers\<close>












section \<open>Strings: \<open>replace\<close> and \<open>parseInt\<close>\<close>

text \<open>
  A string is the list of the bytes of its UTF-8 text. \<open>s.replace(pat, rep)\<close> with a
  string pattern replaces the first occurrence of the pattern only.
\<close>

fun js_replace :: "string \<Rightarrow> string \<Rightarrow> string \<Rightarrow> string" where
  "js_replace pat rep [] = (if pat = [] then rep else [])"
| "js_replace pat rep (c # cs) =
     (if take (length pat) (c # cs) = pat then rep @ drop (length pat) (c # cs)
      else c # js_replace pat rep cs)"

text \<open>
  The white space and line terminator characters of the language, by the length of their
  UTF-8 text: tab, line feed, vertical tab, form feed, carriage return and space; the
  no-break space U+00A0; and U+1680, U+2000 to U+200A, U+2028, U+2029, U+202F, U+205F,
  U+3000 and U+FEFF.
\<close>

definition white1 :: "string list" where
  "white1 = [[CHR 0x09], [CHR 0x0A], [CHR 0x0B], [CHR 0x0C], [CHR 0x0D], [CHR 0x20]]"

definition white2 :: "string list" where
  "white2 = [[CHR 0xC2, CHR 0xA0]]"

definition white3 :: "string list" where
  "white3 =
     [[CHR 0xE1, CHR 0x9A, CHR 0x80],
      [CHR 0xE2, CHR 0x80, CHR 0x80], [CHR 0xE2, CHR 0x80, CHR 0x81],
      [CHR 0xE2, CHR 0x80, CHR 0x82], [CHR 0xE2, CHR 0x80, CHR 0x83],
      [CHR 0xE2, CHR 0x80, CHR 0x84], [CHR 0xE2, CHR 0x80, CHR 0x85],
      [CHR 0xE2, CHR 0x80, CHR 0x86], [CHR 0xE2, CHR 0x80, CHR 0x87],
      [CHR 0xE2, CHR 0x80, CHR 0x88], [CHR 0xE2, CHR 0x80, CHR 0x89],
      [CHR 0xE2, CHR 0x80, CHR 0x8A], [CHR 0xE2, CHR 0x80, CHR 0xA8],
      [CHR 0xE2, CHR 0x80, CHR 0xA9], [CHR 0xE2, CHR 0x80, CHR 0xAF],
      [CHR 0xE2, CHR 0x81, CHR 0x9F], [CHR 0xE3, CHR 0x80, CHR 0x80],
      [CHR 0xEF, CHR 0xBB, CHR 0xBF]]"

text \<open>The number of bytes of the white space character that a string starts with, 0 if none.\<close>

definition white_prefix :: "string \<Rightarrow> nat" where
  "white_prefix s =
     (if take 1 s \<in> set white1 then 1
      else if take 2 s \<in> set white2 then 2
      else if take 3 s \<in> set white3 then 3
      else 0)"

text \<open>The string without its leading white space.\<close>

fun trim_start :: "string \<Rightarrow> string" where
  "trim_start [] = []"
| "trim_start (c # cs) =
     (if white_prefix (c # cs) = 0 then c # cs
      else trim_start (drop (white_prefix (c # cs) - 1) cs))"

definition digit_table :: "(char \<times> nat) list" where
  "digit_table =
     [(CHR ''0'', 0), (CHR ''1'', 1), (CHR ''2'', 2), (CHR ''3'', 3), (CHR ''4'', 4),
      (CHR ''5'', 5), (CHR ''6'', 6), (CHR ''7'', 7), (CHR ''8'', 8), (CHR ''9'', 9),
      (CHR ''a'', 10), (CHR ''b'', 11), (CHR ''c'', 12), (CHR ''d'', 13), (CHR ''e'', 14),
      (CHR ''f'', 15), (CHR ''A'', 10), (CHR ''B'', 11), (CHR ''C'', 12), (CHR ''D'', 13),
      (CHR ''E'', 14), (CHR ''F'', 15)]"

definition digit_in :: "nat \<Rightarrow> char \<Rightarrow> nat option" where
  "digit_in R c = (case map_of digit_table c of
                     None \<Rightarrow> None
                   | Some d \<Rightarrow> if d < R then Some d else None)"

definition digits_value :: "nat \<Rightarrow> string \<Rightarrow> nat" where
  "digits_value R Z = foldl (\<lambda>a c. a * R + (case digit_in R c of Some d \<Rightarrow> d | None \<Rightarrow> 0)) 0 Z"

text \<open>
  \<open>Number.parseInt(s)\<close> with no radix, after the language definition: leading white
  space is skipped, a sign is read, a \<open>0x\<close> prefix selects base 16, and the longest run
  of digits is read. No digit gives \<open>NaN\<close>, the value zero gives the zero of the sign
  read, and any other value is rounded to a double. (For more than 20 significant decimal
  digits the language lets an implementation replace the digits after the 20th by zeros;
  the value is not approximated here.)
\<close>

definition parseInt :: "string \<Rightarrow> double" where
  "parseInt str =
     (let S = trim_start str;
          negative = (take 1 S = ''-'');
          S1 = (if take 1 S = ''+'' \<or> take 1 S = ''-'' then drop 1 S else S);
          hex = (take 2 S1 = ''0x'' \<or> take 2 S1 = ''0X'');
          R = (if hex then 16 else 10);
          S2 = (if hex then drop 2 S1 else S1);
          Z = takeWhile (\<lambda>c. digit_in R c \<noteq> None) S2
      in if Z = [] then NotANumber
         else if digits_value R Z = 0 then zero_of negative
         else rnd (if negative then - real (digits_value R Z) else real (digits_value R Z)))"

section \<open>Data\<close>

record trafficReason =
  type_r :: string
  description :: string

record junction =
  junction_id :: string
  name :: string
  latitude :: double
  longitude :: double
  trafficLevel :: string
  currentTrafficCount :: double
  capacity :: double
  trafficReasons :: "trafficReason list"
  laneWidth :: "double option"
  speedLimit :: "double option"
  signalTiming :: "double option"
  lanes :: "double option"

text \<open>
  The \<open>changes\<close> argument, as the simulation reads it: four fields, each a number or
  absent.
\<close>

record changes =
  laneWidth :: "double option"
  speedLimit :: "double option"
  signalTiming :: "double option"
  additionalLanes :: "double option"

text \<open>
  One point of the hourly series. \<open>time\<close> holds the instant, in milliseconds since the
  epoch, that the source renders with \<open>toISOString\<close>; the clock values are instants
  that a \<open>Date\<close> can hold, for which the rendering does not fail.
\<close>

record flow_point =
  time :: int
  traffic :: double
  before :: double

record snapshot =
  laneWidth :: "double option"
  speedLimit :: "double option"
  signalTiming :: "double option"
  lanes :: "double option"
  averageTraffic :: double
  averageDelay :: double
  throughput :: double
  trafficFlowData :: "flow_point list"

record sim_result =
  before :: snapshot
  after :: snapshot

text \<open>
  The values of a JSON file, and what a condition makes of them: \<open>null\<close>,
  \<open>false\<close>, the zeros and the empty string count as false, every array and every
  object as true.
\<close>

datatype json =
  JNull | JBool bool | JNumber double | JString string | JArray "json list"
  | JObject "(string \<times> json) list"

fun json_truthy :: "json \<Rightarrow> bool" where
  "json_truthy JNull = False"
| "json_truthy (JBool b) = b"
| "json_truthy (JNumber x) = truthy x"
| "json_truthy (JString s) = (s \<noteq> [])"
| "json_truthy (JArray xs) = True"
| "json_truthy (JObject kvs) = True"

text \<open>
  \<open>obj[key]\<close> on an object read from a JSON file, whose entries are given as a map:
  the lookup finds the entry the file has under the key, or else the member that every
  object inherits under that name (\<open>constructor\<close>, \<open>toString\<close>, ...), or else
  nothing (\<open>undefined\<close>, here \<open>None\<close>). The inherited members are functions and
  \<open>__proto__\<close> is an object: they count as true in a condition.
\<close>

definition Object_prototype_names :: "string list" where
  "Object_prototype_names =
     [''constructor'', ''hasOwnProperty'', ''isPrototypeOf'', ''propertyIsEnumerable'',
      ''toLocaleString'', ''toString'', ''valueOf'', ''__proto__'', ''__defineGetter__'',
      ''__defineSetter__'', ''__lookupGetter__'', ''__lookupSetter__'']"

datatype 'r member = Own 'r | Inherited string

definition js_get :: "(string \<rightharpoonup> 'r) \<Rightarrow> string \<Rightarrow> 'r member option" where
  "js_get obj key =
     (case obj key of
        Some r \<Rightarrow> Some (Own r)
      | None \<Rightarrow> if key \<in> set Object_prototype_names then Some (Inherited key) else None)"

fun member_truthy :: "json member \<Rightarrow> bool" where
  "member_truthy (Own v) = json_truthy v"
| "member_truthy (Inherited n) = True"

text \<open>The condition \<open>if (obj[key])\<close>.\<close>

definition lookup_truthy :: "(string \<rightharpoonup> json) \<Rightarrow> string \<Rightarrow> bool" where
  "lookup_truthy obj key =
     (case js_get obj key of Some r \<Rightarrow> member_truthy r | None \<Rightarrow> False)"

text \<open>
  What \<open>simulateTrafficChanges\<close> resolves to: what the lookup in the precomputed data
  set found, or a freshly computed pair.
\<close>

datatype sim_output = Precomputed "json member" | Simulated sim_result

datatype error = Error string

text \<open>
  The wall clock: \<open>clk k\<close> is what the \<open>k\<close>-th read of the clock returns; the state
  threaded through the code is the number of reads made so far.
\<close>

type_synonym clock = "nat \<Rightarrow> int"

definition new_Date :: "clock \<Rightarrow> nat \<Rightarrow> int \<times> nat" where
  "new_Date clk k = (clk k, Suc k)"

section \<open>The data access functions\<close>

definition fetchJunctionById :: "junction list \<Rightarrow> string \<Rightarrow> error + junction" where
  "fetchJunctionById junctionsData i =
     (case find (\<lambda>j. junction_id j = i) junctionsData of
        None \<Rightarrow> Inl (Error (''Junction with ID '' @ i @ '' not found''))
      | Some j \<Rightarrow> Inr j)"

definition calculateMockDelay :: "junction \<Rightarrow> double" where
  "calculateMockDelay j =
     (let trafficRatio = d_div (currentTrafficCount j) (capacity j)
      in d_div (Math_round (d_mul (d_add (Fin 20) (d_mul trafficRatio (Fin 60))) (Fin 10)))
               (Fin 10))"

definition calculateMockThroughput :: "junction \<Rightarrow> double" where
  "calculateMockThroughput j = Math_round (d_mul (capacity j) (rnd 0.8))"

text \<open>\<open>Number.parseInt(junction.id.replace("j", "")) || 1\<close>.\<close>

definition junctionIndex :: "junction \<Rightarrow> double" where
  "junctionIndex j =
     (let n = parseInt (js_replace ''j'' '''' (junction_id j))
      in if truthy n then n else Fin 1)"

text \<open>
  \<open>Math.sin(((i - 6) * Math.PI) / 12)\<close> as the code computes it, in doubles and with
  the \<open>Math.sin\<close> of the platform.
\<close>

definition hourFactor_double :: "(double \<Rightarrow> double) \<Rightarrow> nat \<Rightarrow> double" where
  "hourFactor_double msin i =
     msin (d_div (d_mul (d_sub (Fin (real i)) (Fin 6)) Math_PI_double) (Fin 12))"


definition baseFactor :: "junction \<Rightarrow> double" where
  "baseFactor j = d_add (d_mul (junctionIndex j) (Fin 100)) (Fin 300)"

text \<open>The body of the loop of \<open>generateMockTrafficFlowData\<close> at index \<open>i\<close>.\<close>

definition flow_entry ::
    "(double \<Rightarrow> double) \<Rightarrow> int \<Rightarrow> string \<Rightarrow> junction \<Rightarrow> double \<Rightarrow> nat \<Rightarrow> flow_point" where
  "flow_entry msin now ty j impact i =
     (let time_i = now - (23 - int i) * 60 * 60 * 1000;
          traffic0 = Math_max (Fin 100)
                       (Math_round (d_add (baseFactor j)
                                      (d_mul (hourFactor_double msin i) (Fin 300))));
          traffic1 = (if ty = ''after'' \<and> truthy impact
                      then Math_max (Fin 100)
                             (Math_round (d_sub traffic0
                                (d_mul (d_mul impact (Fin 0.5))
                                       (d_add (Fin 1) (hourFactor_double msin i)))))
                      else traffic0);
          before_i = Math_round (d_mul (baseFactor j) (rnd 0.8))
      in \<lparr> time = time_i, traffic = traffic1, flow_point.before = before_i \<rparr>)"

function flow_loop ::
    "(double \<Rightarrow> double) \<Rightarrow> int \<Rightarrow> string \<Rightarrow> junction \<Rightarrow> double \<Rightarrow> nat \<Rightarrow> flow_point list
      \<Rightarrow> flow_point list" where
  "flow_loop msin now ty j impact i data =
     (if i < 24
      then flow_loop msin now ty j impact (i + 1) (data @ [flow_entry msin now ty j impact i])
      else data)"
  by pat_completeness auto
termination
  by (relation "measure (\<lambda>(msin, now, ty, j, impact, i, data). 24 - i)") auto

definition generateMockTrafficFlowData ::
    "(double \<Rightarrow> double) \<Rightarrow> clock \<Rightarrow> string \<Rightarrow> junction \<Rightarrow> double \<Rightarrow> nat
      \<Rightarrow> flow_point list \<times> nat" where
  "generateMockTrafficFlowData msin clk ty j impact k =
     (let (now, k') = new_Date clk k
      in (flow_loop msin now ty j impact 0 [], k'))"

section \<open>The simulation\<close>

definition laneWidthImpact :: "junction \<Rightarrow> changes \<Rightarrow> double" where
  "laneWidthImpact j c =
     d_mul (d_sub (to_number (changes.laneWidth c)) (to_number (junction.laneWidth j))) (Fin 20)"

definition speedLimitImpact :: "junction \<Rightarrow> changes \<Rightarrow> double" where
  "speedLimitImpact j c =
     d_mul (d_sub (to_number (changes.speedLimit c)) (to_number (junction.speedLimit j))) (Fin 2)"

definition signalTimingImpact :: "junction \<Rightarrow> changes \<Rightarrow> double" where
  "signalTimingImpact j c =
     d_mul (d_sub (to_number (junction.signalTiming j)) (to_number (changes.signalTiming c)))
       (Fin 1.5)"

definition lanesImpact :: "changes \<Rightarrow> double" where
  "lanesImpact c = d_mul (to_number (additionalLanes c)) (Fin 100)"

definition totalImpact :: "junction \<Rightarrow> changes \<Rightarrow> double" where
  "totalImpact j c =
     d_add (d_add (d_add (laneWidthImpact j c) (speedLimitImpact j c))
               (signalTimingImpact j c))
       (lanesImpact c)"

text \<open>
  The object \<open>before\<close> of \<open>simulateTrafficChanges\<close>, with the clock read it makes. The
  series is generated with the default impact, 0.
\<close>

definition before_snapshot ::
    "(double \<Rightarrow> double) \<Rightarrow> clock \<Rightarrow> junction \<Rightarrow> nat \<Rightarrow> snapshot \<times> nat" where
  "before_snapshot msin clk j k =
     (let (flow, k') = generateMockTrafficFlowData msin clk ''before'' j (Fin 0) k
      in (\<lparr> snapshot.laneWidth = junction.laneWidth j,
            snapshot.speedLimit = junction.speedLimit j,
            snapshot.signalTiming = junction.signalTiming j,
            snapshot.lanes = junction.lanes j,
            averageTraffic = currentTrafficCount j,
            averageDelay = calculateMockDelay j,
            throughput = calculateMockThroughput j,
            trafficFlowData = flow \<rparr>, k'))"

text \<open>The object \<open>after\<close> of \<open>simulateTrafficChanges\<close>, with the clock read it makes.\<close>

definition after_snapshot ::
    "(double \<Rightarrow> double) \<Rightarrow> clock \<Rightarrow> junction \<Rightarrow> changes \<Rightarrow> nat \<Rightarrow> snapshot \<times> nat" where
  "after_snapshot msin clk j c k =
     (let (flow, k') = generateMockTrafficFlowData msin clk ''after'' j (totalImpact j c) k
      in (\<lparr> snapshot.laneWidth = changes.laneWidth c,
            snapshot.speedLimit = changes.speedLimit c,
            snapshot.signalTiming = changes.signalTiming c,
            snapshot.lanes =
              Some (d_add (to_number (junction.lanes j)) (to_number (additionalLanes c))),
            averageTraffic =
              Math_max (Fin 100)
                (Math_round (d_sub (d_mul (currentTrafficCount j) (rnd 0.9))
                                   (d_mul (totalImpact j c) (Fin 0.5)))),
            averageDelay =
              Math_max (Fin 5)
                (d_sub (calculateMockDelay j) (d_mul (totalImpact j c) (rnd 0.1))),
            throughput = Math_max (Fin 200) (d_add (calculateMockThroughput j) (totalImpact j c)),
            trafficFlowData = flow \<rparr>, k'))"

text \<open>
  The part of \<open>simulateTrafficChanges\<close> that follows the lookup in the precomputed data
  set: the junction is fetched, and the two snapshots are computed.
\<close>

definition simulate_junction ::
    "(double \<Rightarrow> double) \<Rightarrow> junction list \<Rightarrow> clock \<Rightarrow> string \<Rightarrow> changes \<Rightarrow> nat
      \<Rightarrow> (error + sim_output) \<times> nat" where
  "simulate_junction msin junctionsData clk junctionId c k =
     (case fetchJunctionById junctionsData junctionId of
        Inl e \<Rightarrow> (Inl e, k)
      | Inr j \<Rightarrow>
          (let (b, k1) = before_snapshot msin clk j k;
               (a, k2) = after_snapshot msin clk j c k1
           in (Inr (Simulated \<lparr> sim_result.before = b, after = a \<rparr>), k2)))"

text \<open>
  \<open>simulateTrafficChanges\<close>, over the two data sets the module imports. What the lookup
  \<open>simulationResultsData[junctionId]\<close> finds is returned when it counts as true in the
  condition of the \<open>if\<close>. The waits on timers change no result and are left out.
\<close>

definition simulateTrafficChanges ::
    "(double \<Rightarrow> double) \<Rightarrow> (string \<rightharpoonup> json) \<Rightarrow> junction list \<Rightarrow> clock \<Rightarrow> string \<Rightarrow> changes
      \<Rightarrow> nat \<Rightarrow> (error + sim_output) \<times> nat" where
  "simulateTrafficChanges msin simulationResultsData junctionsData clk junctionId c k =
     (case js_get simulationResultsData junctionId of
        Some r \<Rightarrow>
          if member_truthy r then (Inr (Precomputed r), k)
          else simulate_junction msin junctionsData clk junctionId c k
      | None \<Rightarrow> simulate_junction msin junctionsData clk junctionId c k)"

text \<open>
  An injected clock: every read returns the same instant \<open>now\<close>.
\<close>

definition fixed_clock :: "int \<Rightarrow> clock" where
  "fixed_clock now k = now"

section \<open>The junction index in the words of the specification\<close>

text \<open>
  The specification calls the junction index the numeric suffix of the identifier, 1 when
  there is none. \<open>spec_junctionIndex\<close> is that reading, written from its words to be
  compared with \<open>junctionIndex\<close>: the longest run of decimal digits that ends the
  identifier, read in base 10.
\<close>

definition is_decimal_digit :: "char \<Rightarrow> bool" where
  "is_decimal_digit c = (c \<in> set ''0123456789'')"

definition decimal_value :: "string \<Rightarrow> nat" where
  "decimal_value ds = foldl (\<lambda>a c. 10 * a + (of_char c - 48)) 0 ds"

definition spec_junctionIndex :: "string \<Rightarrow> int" where
  "spec_junctionIndex s =
     (let suffix = rev (takeWhile is_decimal_digit (rev s))
      in if suffix = [] then 1 else int (decimal_value suffix))"

section \<open>Example inputs\<close>

text \<open>The junction and the change request of the concrete scenario of the specification.\<close>

definition scenario_junction :: junction where
  "scenario_junction =
     \<lparr> junction_id = ''j1'', name = ''Junction 1'', latitude = Fin 0, longitude = Fin 0,
       trafficLevel = ''high'', currentTrafficCount = Fin 400, capacity = Fin 500,
       trafficReasons = [], junction.laneWidth = Some (Fin 3),
       junction.speedLimit = Some (Fin 30), junction.signalTiming = Some (Fin 60),
       junction.lanes = Some (Fin 2) \<rparr>"

definition scenario_changes :: changes where
  "scenario_changes =
     \<lparr> changes.laneWidth = Some (Fin 3.5), changes.speedLimit = Some (Fin 30),
       changes.signalTiming = Some (Fin 45), additionalLanes = Some (Fin 1) \<rparr>"

text \<open>A change request with a large positive impact: ten additional lanes.\<close>

definition ten_lanes_changes :: changes where
  "ten_lanes_changes =
     \<lparr> changes.laneWidth = Some (Fin 3), changes.speedLimit = Some (Fin 30),
       changes.signalTiming = Some (Fin 60), additionalLanes = Some (Fin 10) \<rparr>"

text \<open>
  A change request with finite fields whose impact overflows: a lane width of \<open>2^1023\<close>
  and a speed limit of \<open>-2^1023\<close>.
\<close>

definition overflow_changes :: changes where
  "overflow_changes =
     \<lparr> changes.laneWidth = Some (Fin (2 ^ 1023)), changes.speedLimit = Some (Fin (- (2 ^ 1023))),
       changes.signalTiming = Some (Fin 45), additionalLanes = Some (Fin 1) \<rparr>"

text \<open>A precomputed data set without any entry.\<close>

definition no_results :: "string \<rightharpoonup> json" where
  "no_results = Map.empty"

text \<open>
  Two precomputed data sets with an entry for \<open>j1\<close>: an object, and \<open>null\<close>.
\<close>

definition stored_entry :: json where
  "stored_entry = JObject [(''before'', JObject []), (''after'', JObject [])]"

definition stored_results :: "string \<rightharpoonup> json" where
  "stored_results = [''j1'' \<mapsto> stored_entry]"

definition null_results :: "string \<rightharpoonup> json" where
  "null_results = [''j1'' \<mapsto> JNull]"

text \<open>The scenario's junction with capacity 0.\<close>

definition zero_capacity_junction :: junction where
  "zero_capacity_junction = scenario_junction \<lparr> capacity := Fin 0 \<rparr>"



text \<open>Two junctions whose identifiers are not of the form \<open>j\<close> and a number.\<close>

definition junction7 :: junction where
  "junction7 = scenario_junction \<lparr> junction_id := ''junction7'' \<rparr>"

definition lettered_junction :: junction where
  "lettered_junction = scenario_junction \<lparr> junction_id := ''A'' \<rparr>"

section \<open>Rounding to a double\<close>

lemma floor_log2_eq:
  assumes "2 powi e \<le> x" and "x < 2 powi (e + 1)"
  shows "\<lfloor>log 2 x\<rfloor> = e"
proof -
  have "(0::real) < 2 powi e" by simp
  with assms(1) have x: "0 < x" by linarith
  have "(2::real) powr real_of_int e = 2 powi e" "(2::real) powr (real_of_int e + 1) = 2 powi (e + 1)"
    using powr_real_of_int' [of "2::real" e] powr_real_of_int' [of "2::real" "e + 1"] by simp_all
  with assms show ?thesis using floor_log_eq_powr_iff [of x 2 e] x by simp
qed

lemma floor_log2_bounds:
  assumes "0 < x"
  shows "2 powi \<lfloor>log 2 x\<rfloor> \<le> x" and "x < 2 powi (\<lfloor>log 2 x\<rfloor> + 1)"
proof -
  have "(2::real) powr real_of_int \<lfloor>log 2 x\<rfloor> = 2 powi \<lfloor>log 2 x\<rfloor>"
    "(2::real) powr (real_of_int \<lfloor>log 2 x\<rfloor> + 1) = 2 powi (\<lfloor>log 2 x\<rfloor> + 1)"
    using powr_real_of_int' [of "2::real" "\<lfloor>log 2 x\<rfloor>"] powr_real_of_int' [of "2::real" "\<lfloor>log 2 x\<rfloor> + 1"]
    by simp_all
  then show "2 powi \<lfloor>log 2 x\<rfloor> \<le> x" and "x < 2 powi (\<lfloor>log 2 x\<rfloor> + 1)"
    using floor_log_eq_powr_iff [of x 2 "\<lfloor>log 2 x\<rfloor>"] assms by simp_all
qed

lemma binade_from_log:
  assumes "0 < a"
  shows "binade_from a e = max \<lfloor>log 2 a\<rfloor> e"
  using assms
proof (induction a e rule: binade_from.induct)
  case (1 a e)
  show ?case
  proof (cases "2 powi (e + 1) \<le> a")
    case True
    have "\<not> \<lfloor>log 2 a\<rfloor> < e + 1"
    proof
      assume "\<lfloor>log 2 a\<rfloor> < e + 1"
      then have "\<lfloor>log 2 a\<rfloor> + 1 \<le> e + 1" by simp
      then have "(2::real) powi (\<lfloor>log 2 a\<rfloor> + 1) \<le> 2 powi (e + 1)"
        by (intro power_int_increasing) simp_all
      with floor_log2_bounds(2) [OF 1(2)] True show False by linarith
    qed
    then have "e + 1 \<le> \<lfloor>log 2 a\<rfloor>" by simp
    with 1 True show ?thesis by (subst binade_from.simps) simp
  next
    case False
    have "\<not> e + 1 \<le> \<lfloor>log 2 a\<rfloor>"
    proof
      assume "e + 1 \<le> \<lfloor>log 2 a\<rfloor>"
      then have "(2::real) powi (e + 1) \<le> 2 powi \<lfloor>log 2 a\<rfloor>"
        by (intro power_int_increasing) simp_all
      with floor_log2_bounds(1) [OF 1(2)] False show False by linarith
    qed
    then have "\<lfloor>log 2 a\<rfloor> \<le> e" by simp
    with False show ?thesis by (subst binade_from.simps) simp
  qed
qed

lemma binade_log:
  assumes "0 < a"
  shows "binade a = max \<lfloor>log 2 a\<rfloor> (- 1022)"
  unfolding binade_def using assms by (rule binade_from_log)

lemma binade_eq:
  assumes "2 powi e \<le> x" and "x < 2 powi (e + 1)" and "- 1022 \<le> e"
  shows "binade x = e"
proof -
  have "(0::real) < 2 powi e" by simp
  with assms(1) have "0 < x" by linarith
  then show ?thesis using floor_log2_eq [OF assms(1,2)] assms(3) by (simp add: binade_log)
qed


lemma binade_upper:
  assumes "0 < a"
  shows "a < 2 powi (binade a + 1)"
proof -
  have "a < 2 powi (\<lfloor>log 2 a\<rfloor> + 1)" using assms by (rule floor_log2_bounds)
  also have "\<dots> \<le> 2 powi (binade a + 1)"
    using assms by (intro power_int_increasing) (simp_all add: binade_log)
  finally show ?thesis .
qed

lemma binade_lower:
  assumes "2 powi (- 1022) \<le> a"
  shows "2 powi binade a \<le> a"
proof -
  have "(0::real) < 2 powi (- 1022)" by simp
  with assms have a: "0 < a" by linarith
  have "- 1022 \<le> \<lfloor>log 2 a\<rfloor>"
  proof (rule ccontr)
    assume "\<not> - 1022 \<le> \<lfloor>log 2 a\<rfloor>"
    then have "\<lfloor>log 2 a\<rfloor> + 1 \<le> - 1022" by linarith
    then have "(2::real) powi (\<lfloor>log 2 a\<rfloor> + 1) \<le> 2 powi (- 1022)"
      by (intro power_int_increasing) simp_all
    with floor_log2_bounds(2) [OF a] assms show False by linarith
  qed
  then have "binade a = \<lfloor>log 2 a\<rfloor>" using a by (simp add: binade_log)
  with floor_log2_bounds(1) [OF a] show ?thesis by simp
qed

lemma rne_near:
  assumes "\<bar>q - of_int n\<bar> < 1 / 2"
  shows "rne q = n"
proof (cases "of_int n \<le> q")
  case True
  with assms have "\<lfloor>q\<rfloor> = n" by linarith
  with assms True show ?thesis by (simp add: rne_def Let_def)
next
  case False
  with assms have f: "\<lfloor>q\<rfloor> = n - 1" by linarith
  with assms False have "1 / 2 < q - of_int (n - 1)" by simp
  with f show ?thesis by (simp add: rne_def Let_def)
qed


lemma rne_of_int: "rne (of_int n) = n"
  by (rule rne_near) simp

lemma rne_ge:
  assumes "of_int k \<le> q"
  shows "k \<le> rne q"
proof -
  from assms have "k \<le> \<lfloor>q\<rfloor>" by linarith
  moreover have "\<lfloor>q\<rfloor> \<le> rne q" by (simp add: rne_def Let_def)
  ultimately show ?thesis by linarith
qed

lemma rne_le:
  assumes "q \<le> of_int k"
  shows "rne q \<le> k"
proof (cases "q = of_int k")
  case True
  then show ?thesis by (simp add: rne_of_int)
next
  case False
  with assms have "q < of_int k" by simp
  then have "\<lfloor>q\<rfloor> + 1 \<le> k" by linarith
  moreover have "rne q \<le> \<lfloor>q\<rfloor> + 1" by (simp add: rne_def Let_def)
  ultimately show ?thesis by linarith
qed

lemma rne_less:
  assumes "q < of_int k - 1 / 2"
  shows "rne q < k"
proof -
  from assms have f: "\<lfloor>q\<rfloor> < k" by linarith
  show ?thesis
  proof (cases "q - of_int \<lfloor>q\<rfloor> < 1 / 2")
    case True
    with f show ?thesis by (simp add: rne_def Let_def)
  next
    case False
    with assms have "of_int \<lfloor>q\<rfloor> + 1 < (of_int k :: real)" by linarith
    then have "\<lfloor>q\<rfloor> + 1 < k" by linarith
    moreover have "rne q \<le> \<lfloor>q\<rfloor> + 1" by (simp add: rne_def Let_def)
    ultimately show ?thesis by linarith
  qed
qed

lemma rne_nonneg:
  assumes "0 \<le> q"
  shows "0 \<le> rne q"
  using rne_ge [of 0 q] assms by simp

lemma rnd_not_nan: "rnd x \<noteq> NotANumber"
  by (simp add: rnd_def Let_def)

lemma rnd_pos:
  assumes "0 < x"
  shows "rnd x =
           (if huge \<le> of_int (rne (x / 2 powi (binade x - 52))) * 2 powi (binade x - 52)
            then PosInf
            else Fin (of_int (rne (x / 2 powi (binade x - 52))) * 2 powi (binade x - 52)))"
  using assms by (simp add: rnd_def Let_def)

lemma rnd_neg:
  assumes "x < 0"
  shows "rnd x =
           (if huge \<le> of_int (rne (- x / 2 powi (binade (- x) - 52))) * 2 powi (binade (- x) - 52)
            then NegInf
            else if rne (- x / 2 powi (binade (- x) - 52)) = 0 then NegZero
            else Fin (- (of_int (rne (- x / 2 powi (binade (- x) - 52))) * 2 powi (binade (- x) - 52))))"
  using assms by (simp add: rnd_def Let_def)

lemma real_less_pow:
  assumes "k < 2 ^ n"
  shows "real_of_int k < 2 ^ n"
  using assms of_int_less_iff [of k "2 ^ n", where 'a = real] by simp

lemma real_le_pow:
  assumes "k \<le> 2 ^ n"
  shows "real_of_int k \<le> 2 ^ n"
  using assms of_int_le_iff [of k "2 ^ n", where 'a = real] by simp

lemma pow_le_real:
  assumes "2 ^ n \<le> k"
  shows "2 ^ n \<le> real_of_int k"
  using assms of_int_le_iff [of "2 ^ n" k, where 'a = real] by simp

lemma powi_split_53: "(2::real) powi (e + 1) = 2 ^ 53 * 2 powi (e - 52)"
proof -
  have "(2::real) powi (53 + (e - 52)) = 2 powi 53 * 2 powi (e - 52)"
    by (rule power_int_add) simp
  moreover have "53 + (e - 52) = e + 1" by simp
  ultimately show ?thesis by simp
qed

lemma powi_split_52: "(2::real) powi e = 2 ^ 52 * 2 powi (e - 52)"
proof -
  have "(2::real) powi (52 + (e - 52)) = 2 powi 52 * 2 powi (e - 52)"
    by (rule power_int_add) simp
  moreover have "52 + (e - 52) = e" by simp
  ultimately show ?thesis by simp
qed

lemma rnd_eval:
  assumes "2 powi e \<le> x" and "x < 2 powi (e + 1)" and "- 1022 \<le> e"
    and "\<bar>x / 2 powi (e - 52) - of_int n\<bar> < 1 / 2"
    and "of_int n * 2 powi (e - 52) < huge"
  shows "rnd x = Fin (of_int n * 2 powi (e - 52))"
proof -
  have "(0::real) < 2 powi e" by simp
  with assms(1) have x: "0 < x" by linarith
  have b: "binade x = e" using assms(1-3) by (rule binade_eq)
  have r: "rne (x / 2 powi (e - 52)) = n" using assms(4) by (rule rne_near)
  show ?thesis using assms(5) by (simp add: rnd_pos [OF x] b r)
qed


lemma powi_le_cancel:
  assumes "(2::real) powi a < 2 powi b"
  shows "a < b"
proof (rule ccontr)
  assume "\<not> a < b"
  then have "b \<le> a" by simp
  then have "(2::real) powi b \<le> 2 powi a" by (intro power_int_increasing) simp_all
  with assms show False by simp
qed

lemma binade_exponent:
  assumes "0 < a" and "a < 2 powi (p + 53)" and "- 1074 \<le> p"
  shows "binade a - 52 \<le> p"
proof (cases "binade a = - 1022")
  case True
  with assms(3) show ?thesis by simp
next
  case False
  then have e: "binade a = \<lfloor>log 2 a\<rfloor>"
    using assms(1) by (simp add: binade_log max_def split: if_splits)
  have "2 powi binade a \<le> a" unfolding e using assms(1) by (rule floor_log2_bounds)
  with assms(2) have "(2::real) powi binade a < 2 powi (p + 53)" by linarith
  then have "binade a < p + 53" by (rule powi_le_cancel)
  then show ?thesis by simp
qed

lemma rnd_exact:
  assumes "0 < k" and "k < 2 ^ 53" and "- 1074 \<le> p" and "of_int k * 2 powi p < huge"
  shows "rnd (of_int k * 2 powi p) = Fin (of_int k * 2 powi p)"
proof -
  define x :: real where "x = of_int k * 2 powi p"
  define e where "e = binade x"
  have x: "0 < x" unfolding x_def using assms(1) by simp
  have "real_of_int k < 2 ^ 53" using assms(2) by (rule real_less_pow)
  then have "x < 2 ^ 53 * 2 powi p" unfolding x_def by simp
  also have "\<dots> = 2 powi (p + 53)" by (simp add: power_int_add)
  finally have "x < 2 powi (p + 53)" .
  with x have ep: "e - 52 \<le> p" unfolding e_def using assms(3) by (intro binade_exponent)
  define d where "d = nat (p - (e - 52))"
  have "(2::real) powi p = 2 powi (e - 52) * 2 powi int d"
    using ep by (simp add: d_def power_int_add [symmetric])
  then have q: "x / 2 powi (e - 52) = of_int (k * 2 ^ d)"
    by (simp add: x_def)
  have r: "rne (x / 2 powi (e - 52)) = k * 2 ^ d" unfolding q by (rule rne_of_int)
  have m: "of_int (k * 2 ^ d) * 2 powi (e - 52) = x"
    using q by (simp add: field_simps)
  have "rnd x = (if huge \<le> of_int (rne (x / 2 powi (e - 52))) * 2 powi (e - 52) then PosInf
                 else Fin (of_int (rne (x / 2 powi (e - 52))) * 2 powi (e - 52)))"
    unfolding e_def by (rule rnd_pos [OF x])
  also have "\<dots> = (if huge \<le> x then PosInf else Fin x)" by (simp only: r m)
  also have "\<dots> = Fin x" using assms(4) by (simp add: x_def)
  finally show ?thesis by (simp only: x_def)
qed

lemma rnd_int:
  assumes "0 < k" and "k < 2 ^ 53"
  shows "rnd (of_int k) = Fin (of_int k)"
proof -
  have "real_of_int k < 2 ^ 53" using assms(2) by (rule real_less_pow)
  then have "real_of_int k < huge" by (simp add: huge_def)
  then show ?thesis using rnd_exact [of k 0] assms by simp
qed



lemma mag_upper:
  assumes "0 < x"
  shows "mag x \<le> 2 powi (binade x + 1)"
proof -
  have "x / 2 powi (binade x - 52) < 2 powi (binade x + 1) / 2 powi (binade x - 52)"
    using binade_upper [OF assms] by (simp add: divide_strict_right_mono)
  also have "\<dots> = 2 powi 53" by (simp add: power_int_diff [symmetric])
  finally have "x / 2 powi (binade x - 52) \<le> of_int (2 ^ 53)" by simp
  then have "rne (x / 2 powi (binade x - 52)) \<le> 2 ^ 53" by (rule rne_le)
  then have "real_of_int (rne (x / 2 powi (binade x - 52))) \<le> 2 ^ 53" by (rule real_le_pow)
  then have "mag x \<le> 2 ^ 53 * 2 powi (binade x - 52)"
    unfolding mag_def by (intro mult_right_mono) simp_all
  also have "\<dots> = 2 powi (binade x + 1)" by (simp only: powi_split_53)
  finally show ?thesis .
qed

lemma mag_lower:
  assumes "2 powi binade x \<le> x"
  shows "2 powi binade x \<le> mag x"
proof -
  have "2 powi binade x / 2 powi (binade x - 52) \<le> x / 2 powi (binade x - 52)"
    using assms by (simp add: divide_right_mono)
  moreover have "(2::real) powi binade x / 2 powi (binade x - 52) = 2 powi 52"
    by (simp add: power_int_diff [symmetric])
  ultimately have "of_int (2 ^ 52) \<le> x / 2 powi (binade x - 52)" by simp
  then have "2 ^ 52 \<le> rne (x / 2 powi (binade x - 52))" by (rule rne_ge)
  then have "2 ^ 52 \<le> real_of_int (rne (x / 2 powi (binade x - 52)))" by (rule pow_le_real)
  then have "2 ^ 52 * 2 powi (binade x - 52) \<le> mag x"
    unfolding mag_def by (intro mult_right_mono) simp_all
  moreover have "(2::real) ^ 52 * 2 powi (binade x - 52) = 2 powi binade x"
    by (simp only: powi_split_52 [symmetric])
  ultimately show ?thesis by simp
qed

lemma mag_nonneg:
  assumes "0 < x"
  shows "0 \<le> mag x"
proof -
  have "0 \<le> x / 2 powi (binade x - 52)" using assms by simp
  then have "0 \<le> rne (x / 2 powi (binade x - 52))" by (rule rne_nonneg)
  then show ?thesis by (simp add: mag_def)
qed


lemma rnd_mag:
  assumes "0 < x"
  shows "rnd x = (if huge \<le> mag x then PosInf else Fin (mag x))"
  using rnd_pos [OF assms] by (simp add: mag_def)



text \<open>A number below the largest double by more than half a unit rounds to a finite one.\<close>

lemma mag_finite:
  assumes "0 < x" and "x < huge - 2 ^ 970"
  shows "mag x < huge"
proof (cases "binade x \<le> 1022")
  case True
  then have "(2::real) powi (binade x + 1) \<le> 2 powi 1023"
    by (intro power_int_increasing) simp_all
  with mag_upper [OF assms(1)] have "mag x \<le> 2 powi 1023" by linarith
  also have "\<dots> < huge" by (simp add: huge_def)
  finally show ?thesis .
next
  case False
  have "x < 2 powi 1024" using assms(2) by (simp add: huge_def)
  have "binade x < 1024"
  proof (rule ccontr)
    assume "\<not> binade x < 1024"
    then have h: "1024 \<le> binade x" by simp
    then have "binade x \<noteq> - 1022" by linarith
    then have e: "binade x = \<lfloor>log 2 x\<rfloor>"
      using assms(1) by (simp add: binade_log max_def split: if_splits)
    have "2 powi binade x \<le> x" unfolding e using assms(1) by (rule floor_log2_bounds)
    moreover have "(2::real) powi 1024 \<le> 2 powi binade x"
      using h by (intro power_int_increasing) simp_all
    ultimately show False using \<open>x < 2 powi 1024\<close> by linarith
  qed
  with False have b: "binade x = 1023" by simp
  have "x / 2 powi 971 < (huge - 2 ^ 970) / 2 powi 971"
    using assms(2) by (simp add: divide_strict_right_mono)
  also have "\<dots> = of_int (2 ^ 53) - 1 / 2" by (simp add: huge_def)
  finally have "rne (x / 2 powi 971) < 2 ^ 53" by (rule rne_less)
  then have "real_of_int (rne (x / 2 powi 971)) < 2 ^ 53" by (rule real_less_pow)
  moreover have "real_of_int (rne (x / 2 powi 971)) \<le> 2 ^ 53 - 1"
    if "real_of_int (rne (x / 2 powi 971)) < 2 ^ 53"
  proof -
    from that have "real_of_int (rne (x / 2 powi 971)) < real_of_int (2 ^ 53)" by simp
    then have "rne (x / 2 powi 971) < 2 ^ 53" by (simp only: of_int_less_iff)
    then have "rne (x / 2 powi 971) \<le> 2 ^ 53 - 1" by simp
    then have "real_of_int (rne (x / 2 powi 971)) \<le> real_of_int (2 ^ 53 - 1)"
      by (simp only: of_int_le_iff)
    then show ?thesis by simp
  qed
  ultimately have "real_of_int (rne (x / 2 powi 971)) \<le> 2 ^ 53 - 1" by blast
  moreover have "mag x = real_of_int (rne (x / 2 powi 971)) * 2 powi 971"
    by (simp add: mag_def b)
  ultimately have "mag x \<le> (2 ^ 53 - 1) * 2 powi 971"
    using mult_right_mono [of "real_of_int (rne (x / 2 powi 971))" "2 ^ 53 - 1" "2 powi 971"]
    by simp
  also have "\<dots> < huge" by (simp add: huge_def)
  finally show ?thesis .
qed

lemma rnd_finite:
  assumes "\<bar>x\<bar> < huge - 2 ^ 970"
  shows "is_finite (rnd x)"
proof -
  have h: "(0::real) < huge" by (simp add: huge_def)
  consider "x = 0" | "0 < x" | "x < 0" by linarith
  then show ?thesis
  proof cases
    case 1
    then show ?thesis using h by (simp add: rnd_def)
  next
    case 2
    with assms have "mag x < huge" by (intro mag_finite) simp_all
    with mag_nonneg [OF 2] show ?thesis by (simp add: rnd_mag [OF 2])
  next
    case 3
    then have p: "0 < - x" by simp
    with assms have "mag (- x) < huge" by (intro mag_finite) simp_all
    with mag_nonneg [OF p] 3 show ?thesis
      unfolding rnd_neg [OF 3] mag_def by simp
  qed
qed

lemma rnd_Fin_bound:
  assumes "rnd x = Fin m"
  shows "\<bar>m\<bar> < huge"
proof -
  have h: "(0::real) < huge" by (simp add: huge_def)
  consider "x = 0" | "0 < x" | "x < 0" by linarith
  then show ?thesis
  proof cases
    case 1
    with assms h show ?thesis by (simp add: rnd_def)
  next
    case 2
    with assms mag_nonneg [OF 2] show ?thesis
      by (auto simp add: rnd_mag [OF 2] split: if_splits)
  next
    case 3
    then have p: "0 < - x" by simp
    from assms mag_nonneg [OF p] show ?thesis
      unfolding rnd_neg [OF 3] mag_def by (auto split: if_splits)
  qed
qed

lemma rnd_overflow:
  assumes "huge \<le> x"
  shows "rnd x = PosInf"
proof -
  have h: "huge = 2 powi 1024" by (simp add: huge_def)
  have "(0::real) < 2 powi 1024" by simp
  with assms h have x: "0 < x" by linarith
  have "(2::real) powi (- 1022) \<le> 2 powi 1024" by (intro power_int_increasing) simp_all
  with assms h have "2 powi (- 1022) \<le> x" by linarith
  then have l: "2 powi binade x \<le> x" by (rule binade_lower)
  from binade_upper [OF x] assms h have "(2::real) powi 1024 < 2 powi (binade x + 1)" by linarith
  then have "1024 < binade x + 1" by (rule powi_le_cancel)
  then have "(2::real) powi 1024 \<le> 2 powi binade x"
    by (intro power_int_increasing) simp_all
  with mag_lower [OF l] h have "huge \<le> mag x" by linarith
  then show ?thesis by (simp add: rnd_mag [OF x])
qed

lemma rnd_minus:
  assumes "0 < x"
  shows "rnd (- x) = d_neg (rnd x)"
proof -
  from assms have n: "- x < 0" by simp
  show ?thesis by (simp add: rnd_neg [OF n] rnd_pos [OF assms])
qed

lemma rnd_quarter:
  assumes "0 < k" and "k < 2 ^ 53"
  shows "rnd (of_int k / 4) = Fin (of_int k / 4)"
proof -
  have "real_of_int k < 2 ^ 53" using assms(2) by (rule real_less_pow)
  then have "real_of_int k * 2 powi (- 2) < huge" by (simp add: huge_def)
  then show ?thesis using rnd_exact [of k "- 2"] assms by simp
qed

text \<open>The doubles that the literals 0.9, 0.8 and 0.1 denote.\<close>

lemma literal_09: "rnd (9 / 10) = Fin (8106479329266893 / 9007199254740992)"
  using rnd_eval [of "- 1" "9 / 10" 8106479329266893] by (simp add: huge_def)

lemma literal_08: "rnd (4 / 5) = Fin (3602879701896397 / 4503599627370496)"
  using rnd_eval [of "- 1" "8 / 10" 7205759403792794] by (simp add: huge_def)

lemma literal_01: "rnd (1 / 10) = Fin (3602879701896397 / 36028797018963968)"
  using rnd_eval [of "- 4" "1 / 10" 7205759403792794] by (simp add: huge_def)

lemma huge_pos: "0 < huge"
  by (simp add: huge_def)

section \<open>The flow series as a list\<close>

lemma flow_loop_unfold:
  "flow_loop msin now ty j impact i data
     = data @ map (flow_entry msin now ty j impact) [i..<24]"
proof (induction msin now ty j impact i data rule: flow_loop.induct)
  case (1 msin now ty j impact i data)
  show ?case
  proof (cases "i < 24")
    case True
    then have "[i..<24] = i # [i + 1..<24]" by (simp add: upt_conv_Cons)
    with True 1 show ?thesis by (subst flow_loop.simps) simp
  next
    case False
    then show ?thesis by (subst flow_loop.simps) simp
  qed
qed

lemma generate_eq:
  "generateMockTrafficFlowData msin clk ty j impact k =
     (map (flow_entry msin (clk k) ty j impact) [0..<24], Suc k)"
  by (simp only: generateMockTrafficFlowData_def new_Date_def flow_loop_unfold Let_def
        prod.case append_Nil)

lemma time_flow_entry:
  "time (flow_entry msin now ty j impact i) = now - (23 - int i) * 3600000"
  by (simp add: flow_entry_def Let_def)

text \<open>
  C7. Whatever the junction, the variant and the impact, the generated series has exactly
  24 entries; the entry at index \<open>i\<close> carries the instant \<open>23 - i\<close> hours before the
  clock value read at generation time, so the instants increase strictly, consecutive ones
  are one hour (3600000 ms) apart, and the last one is that clock value. The clock is read
  once.
\<close>

theorem flow_series_timestamps:
  "length (fst (generateMockTrafficFlowData msin clk ty j impact k)) = 24 \<and>
   map time (fst (generateMockTrafficFlowData msin clk ty j impact k))
     = map (\<lambda>i. clk k - (23 - int i) * 3600000) [0..<24] \<and>
   sorted_wrt (<) (map time (fst (generateMockTrafficFlowData msin clk ty j impact k))) \<and>
   (\<forall>i. Suc i < 24 \<longrightarrow>
      time (fst (generateMockTrafficFlowData msin clk ty j impact k) ! Suc i)
        = time (fst (generateMockTrafficFlowData msin clk ty j impact k) ! i) + 3600000) \<and>
   time (last (fst (generateMockTrafficFlowData msin clk ty j impact k))) = clk k \<and>
   snd (generateMockTrafficFlowData msin clk ty j impact k) = Suc k"
proof -
  let ?data = "map (flow_entry msin (clk k) ty j impact) [0..<24]"
  have m: "map time ?data = map (\<lambda>i. clk k - (23 - int i) * 3600000) [0..<24]"
    by (simp add: time_flow_entry del: upt_Suc)
  have s: "sorted_wrt (<) (map time ?data)"
    unfolding m by (simp add: sorted_wrt_map sorted_wrt_upt del: upt_Suc)
  have n: "\<forall>i. Suc i < 24 \<longrightarrow> time (?data ! Suc i) = time (?data ! i) + 3600000"
    by (simp add: time_flow_entry del: upt_Suc)
  have l: "time (last ?data) = clk k"
    by (simp add: last_map time_flow_entry)
  show ?thesis
    unfolding generate_eq fst_conv snd_conv using m s n l by (simp del: upt_Suc)
qed

theorem flow_series_timestamps_witness:
  "length (fst (generateMockTrafficFlowData Math_sin_rounded (fixed_clock 1730000000000)
             ''after'' scenario_junction (Fin 132.5) 0)) = 24 \<and>
   Suc 0 < 24 \<and>
   time (fst (generateMockTrafficFlowData Math_sin_rounded (fixed_clock 1730000000000)
            ''after'' scenario_junction (Fin 132.5) 0) ! Suc 0)
     = time (fst (generateMockTrafficFlowData Math_sin_rounded (fixed_clock 1730000000000)
                ''after'' scenario_junction (Fin 132.5) 0) ! 0) + 3600000 \<and>
   time (last (fst (generateMockTrafficFlowData Math_sin_rounded (fixed_clock 1730000000000)
                  ''after'' scenario_junction (Fin 132.5) 0))) = 1730000000000"
  using flow_series_timestamps [of Math_sin_rounded "fixed_clock 1730000000000" "''after''"
          scenario_junction "Fin 132.5" 0]
  by (simp add: fixed_clock_def)

section \<open>The two snapshots\<close>

lemma before_snapshot_eq:
  "fst (before_snapshot msin clk j k) =
     \<lparr> snapshot.laneWidth = junction.laneWidth j,
       snapshot.speedLimit = junction.speedLimit j,
       snapshot.signalTiming = junction.signalTiming j,
       snapshot.lanes = junction.lanes j,
       averageTraffic = currentTrafficCount j,
       averageDelay = calculateMockDelay j,
       throughput = calculateMockThroughput j,
       trafficFlowData = map (flow_entry msin (clk k) ''before'' j (Fin 0)) [0..<24] \<rparr>"
  by (simp only: before_snapshot_def generate_eq Let_def prod.case fst_conv)

lemma after_snapshot_eq:
  "fst (after_snapshot msin clk j c k) =
     \<lparr> snapshot.laneWidth = changes.laneWidth c,
       snapshot.speedLimit = changes.speedLimit c,
       snapshot.signalTiming = changes.signalTiming c,
       snapshot.lanes =
         Some (d_add (to_number (junction.lanes j)) (to_number (additionalLanes c))),
       averageTraffic =
         Math_max (Fin 100)
           (Math_round (d_sub (d_mul (currentTrafficCount j) (rnd 0.9))
                              (d_mul (totalImpact j c) (Fin 0.5)))),
       averageDelay =
         Math_max (Fin 5) (d_sub (calculateMockDelay j) (d_mul (totalImpact j c) (rnd 0.1))),
       throughput = Math_max (Fin 200) (d_add (calculateMockThroughput j) (totalImpact j c)),
       trafficFlowData = map (flow_entry msin (clk k) ''after'' j (totalImpact j c)) [0..<24] \<rparr>"
  by (simp only: after_snapshot_def generate_eq Let_def prod.case fst_conv)

lemma snd_before_snapshot: "snd (before_snapshot msin clk j k) = Suc k"
  by (simp only: before_snapshot_def generate_eq Let_def prod.case snd_conv)

lemma snd_after_snapshot: "snd (after_snapshot msin clk j c k) = Suc k"
  by (simp only: after_snapshot_def generate_eq Let_def prod.case snd_conv)

lemma js_get_None:
  assumes "obj key = None" and "key \<notin> set Object_prototype_names"
  shows "js_get obj key = None"
  using assms by (simp add: js_get_def)

lemma js_get_Own:
  assumes "obj key = Some r"
  shows "js_get obj key = Some (Own r)"
  using assms by (simp add: js_get_def)

lemma simulate_fresh:
  assumes "\<not> lookup_truthy simulationResultsData junctionId"
  shows "simulateTrafficChanges msin simulationResultsData junctionsData clk junctionId c k
           = simulate_junction msin junctionsData clk junctionId c k"
  using assms
  by (simp add: simulateTrafficChanges_def lookup_truthy_def split: option.splits)

lemma simulate_junction_found:
  assumes "find (\<lambda>j. junction_id j = junctionId) junctionsData = Some j"
  shows "simulate_junction msin junctionsData clk junctionId c k =
           (Inr (Simulated \<lparr> sim_result.before = fst (before_snapshot msin clk j k),
                              after = fst (after_snapshot msin clk j c (Suc k)) \<rparr>), Suc (Suc k))"
  unfolding simulate_junction_def fetchJunctionById_def assms
  by (simp add: Let_def split_def snd_before_snapshot snd_after_snapshot)

lemma simulate_found:
  assumes "\<not> lookup_truthy simulationResultsData junctionId"
    and "find (\<lambda>j. junction_id j = junctionId) junctionsData = Some j"
  shows "simulateTrafficChanges msin simulationResultsData junctionsData clk junctionId c k =
           (Inr (Simulated \<lparr> sim_result.before = fst (before_snapshot msin clk j k),
                              after = fst (after_snapshot msin clk j c (Suc k)) \<rparr>), Suc (Suc k))"
  by (simp only: simulate_fresh [OF assms(1)] simulate_junction_found [OF assms(2)])

lemma no_results_lookup: "\<not> lookup_truthy no_results ''j1''"
  by (simp add: lookup_truthy_def js_get_def Object_prototype_names_def no_results_def)

section \<open>The delay of the "before" snapshot\<close>









text \<open>Values that the doubles represent exactly, and the products of the examples.\<close>

lemma exact_values:
  "rnd 0 = Fin 0" "rnd (1 / 2) = Fin (1 / 2)" "rnd 1 = Fin 1" "rnd 10 = Fin 10" "rnd 15 = Fin 15"
  "rnd (45 / 2) = Fin (45 / 2)" "rnd (65 / 2) = Fin (65 / 2)" "rnd 68 = Fin 68"
  "rnd 100 = Fin 100" "rnd (265 / 2) = Fin (265 / 2)" "rnd (265 / 4) = Fin (265 / 4)"
  "rnd (1175 / 4) = Fin (1175 / 4)" "rnd (1335 / 4) = Fin (1335 / 4)"
  "rnd (219 / 4) = Fin (219 / 4)" "rnd 400 = Fin 400" "rnd 500 = Fin 500"
  "rnd (1065 / 2) = Fin (1065 / 2)" "rnd 680 = Fin 680" "rnd 1000 = Fin 1000"
  "rnd 1400 = Fin 1400"
  using rnd_quarter [of 2] rnd_quarter [of 4] rnd_quarter [of 40] rnd_quarter [of 60]
    rnd_quarter [of 90] rnd_quarter [of 130] rnd_quarter [of 272] rnd_quarter [of 400]
    rnd_quarter [of 530] rnd_quarter [of 265] rnd_quarter [of 1175] rnd_quarter [of 1335]
    rnd_quarter [of 219] rnd_quarter [of 1600] rnd_quarter [of 2000] rnd_quarter [of 2130]
    rnd_quarter [of 2720] rnd_quarter [of 4000] rnd_quarter [of 5600]
  by (simp_all add: rnd_def)

lemma exact_negative_values: "rnd (- 140) = Fin (- 140)" "rnd (- 32) = Fin (- 32)"
  using rnd_minus [of 140] rnd_minus [of 32] rnd_quarter [of 560] rnd_quarter [of 128]
  by simp_all

lemma product_400_09: "d_mul (Fin 400) (rnd (9 / 10)) = Fin 360"
  using rnd_eval [of 8 "400 * (8106479329266893 / 9007199254740992)" 6333186975989760]
  by (simp add: d_mul_def literal_09 huge_def)

lemma product_08_60: "d_mul (rnd (4 / 5)) (Fin 60) = Fin 48"
  using rnd_eval [of 5 "3602879701896397 / 4503599627370496 * 60" 6755399441055744]
  by (simp add: d_mul_def literal_08 huge_def)

lemma product_impact_01: "d_mul (Fin (265 / 2)) (rnd (1 / 10)) = Fin (53 / 4)"
  using rnd_eval [of 3 "265 / 2 * (3602879701896397 / 36028797018963968)" 7459086882832384]
  by (simp add: d_mul_def literal_01 huge_def)

lemma product_500_08: "d_mul (Fin 500) (rnd (4 / 5)) = Fin 400"
  using rnd_eval [of 8 "500 * (3602879701896397 / 4503599627370496)" 7036874417766400]
  by (simp add: d_mul_def literal_08 huge_def)

lemma product_400_08: "d_mul (Fin 400) (rnd (4 / 5)) = Fin 320"
  using rnd_eval [of 8 "400 * (3602879701896397 / 4503599627370496)" 5629499534213120]
  by (simp add: d_mul_def literal_08 huge_def)

lemma product_1000_01: "d_mul (Fin 1000) (rnd (1 / 10)) = Fin 100"
  using rnd_eval [of 6 "1000 * (3602879701896397 / 36028797018963968)" 7036874417766400]
  by (simp add: d_mul_def literal_01 huge_def)

lemma scenario_totalImpact: "totalImpact scenario_junction scenario_changes = Fin 132.5"
  by (simp add: totalImpact_def laneWidthImpact_def speedLimitImpact_def
        signalTimingImpact_def lanesImpact_def d_sub_def d_mul_def zero_of_def
        scenario_junction_def scenario_changes_def exact_values)

lemma scenario_delay: "calculateMockDelay scenario_junction = Fin 68"
proof -
  have r: "d_div (Fin 400) (Fin 500) = rnd (4 / 5)" by (simp add: d_div_def)
  have s: "d_add (Fin 20) (Fin 48) = Fin 68" by (simp add: exact_values)
  have p: "d_mul (Fin 68) (Fin 10) = Fin 680" by (simp add: d_mul_def exact_values)
  have m: "Math_round (Fin 680) = Fin 680" by simp
  have q: "d_div (Fin 680) (Fin 10) = Fin 68" by (simp add: d_div_def exact_values)
  show ?thesis
    by (simp only: calculateMockDelay_def scenario_junction_def Let_def junction.simps
          r product_08_60 s p m q)
qed

lemma scenario_throughput: "calculateMockThroughput scenario_junction = Fin 400"
  by (simp add: calculateMockThroughput_def scenario_junction_def product_500_08)





section \<open>The metrics of the "after" snapshot\<close>

lemma scenario_count: "currentTrafficCount scenario_junction = Fin 400"
  by (simp add: scenario_junction_def)

lemma scenario_capacity: "capacity scenario_junction = Fin 500"
  by (simp add: scenario_junction_def)

lemma totalImpact_eq:
  "totalImpact j c =
     d_add (d_add (d_add
        (d_mul (d_sub (to_number (changes.laneWidth c)) (to_number (junction.laneWidth j)))
           (Fin 20))
        (d_mul (d_sub (to_number (changes.speedLimit c)) (to_number (junction.speedLimit j)))
           (Fin 2)))
        (d_mul (d_sub (to_number (junction.signalTiming j)) (to_number (changes.signalTiming c)))
           (Fin 1.5)))
        (d_mul (to_number (additionalLanes c)) (Fin 100))"
  by (simp only: totalImpact_def laneWidthImpact_def speedLimitImpact_def
        signalTimingImpact_def lanesImpact_def)

text \<open>
  C2. When the simulation computes its result (the lookup in the precomputed data set
  gives nothing that counts as true, and the identifier is that of a junction),
  \<open>totalImpact\<close> is the stated weighted sum of the four differences, and the "after"
  snapshot has the three fields of the change request,
  \<open>lanes = junction.lanes + additionalLanes\<close>,
  \<open>averageTraffic = max(100, round(count * 0.9 - totalImpact * 0.5))\<close>,
  \<open>averageDelay = max(5, beforeDelay - totalImpact * 0.1)\<close> and
  \<open>throughput = max(200, beforeThroughput + totalImpact)\<close>, where \<open>beforeDelay\<close> and
  \<open>beforeThroughput\<close> are the delay and the throughput of the "before" snapshot of the
  same result. Every operation is the one of the doubles, and an absent field counts as
  \<open>NaN\<close>. The scenario of the specification is the instance that follows:
  \<open>totalImpact = 132.5\<close> and \<open>averageTraffic = 294\<close>.
\<close>

theorem after_snapshot_formulas:
  assumes "\<not> lookup_truthy simulationResultsData junctionId"
    and "find (\<lambda>j. junction_id j = junctionId) junctionsData = Some j"
  shows "\<exists>b a.
           fst (simulateTrafficChanges msin simulationResultsData junctionsData clk junctionId c k)
             = Inr (Simulated \<lparr> sim_result.before = b, after = a \<rparr>) \<and>
           totalImpact j c =
             d_add (d_add (d_add
                (d_mul (d_sub (to_number (changes.laneWidth c))
                              (to_number (junction.laneWidth j))) (Fin 20))
                (d_mul (d_sub (to_number (changes.speedLimit c))
                              (to_number (junction.speedLimit j))) (Fin 2)))
                (d_mul (d_sub (to_number (junction.signalTiming j))
                              (to_number (changes.signalTiming c))) (Fin 1.5)))
                (d_mul (to_number (additionalLanes c)) (Fin 100)) \<and>
           snapshot.laneWidth a = changes.laneWidth c \<and>
           snapshot.speedLimit a = changes.speedLimit c \<and>
           snapshot.signalTiming a = changes.signalTiming c \<and>
           snapshot.lanes a
             = Some (d_add (to_number (junction.lanes j)) (to_number (additionalLanes c))) \<and>
           averageTraffic a
             = Math_max (Fin 100)
                 (Math_round (d_sub (d_mul (currentTrafficCount j) (rnd 0.9))
                                    (d_mul (totalImpact j c) (Fin 0.5)))) \<and>
           averageDelay a
             = Math_max (Fin 5) (d_sub (averageDelay b) (d_mul (totalImpact j c) (rnd 0.1))) \<and>
           throughput a = Math_max (Fin 200) (d_add (throughput b) (totalImpact j c))"
proof -
  let ?b = "fst (before_snapshot msin clk j k)"
  let ?a = "fst (after_snapshot msin clk j c (Suc k))"
  have r: "fst (simulateTrafficChanges msin simulationResultsData junctionsData clk junctionId c k)
             = Inr (Simulated \<lparr> sim_result.before = ?b, after = ?a \<rparr>)"
    by (simp add: simulate_found [OF assms])
  have bd: "averageDelay ?b = calculateMockDelay j" and bt: "throughput ?b = calculateMockThroughput j"
    by (simp_all add: before_snapshot_eq)
  have f: "snapshot.laneWidth ?a = changes.laneWidth c"
    "snapshot.speedLimit ?a = changes.speedLimit c"
    "snapshot.signalTiming ?a = changes.signalTiming c"
    "snapshot.lanes ?a
       = Some (d_add (to_number (junction.lanes j)) (to_number (additionalLanes c)))"
    "averageTraffic ?a
       = Math_max (Fin 100)
           (Math_round (d_sub (d_mul (currentTrafficCount j) (rnd 0.9))
                              (d_mul (totalImpact j c) (Fin 0.5))))"
    "averageDelay ?a
       = Math_max (Fin 5) (d_sub (averageDelay ?b) (d_mul (totalImpact j c) (rnd 0.1)))"
    "throughput ?a = Math_max (Fin 200) (d_add (throughput ?b) (totalImpact j c))"
    unfolding bd bt by (simp_all add: after_snapshot_eq)
  from r totalImpact_eq [of j c] f show ?thesis by blast
qed

theorem after_snapshot_scenario:
  "\<not> lookup_truthy no_results ''j1'' \<and>
   find (\<lambda>j. junction_id j = ''j1'') [scenario_junction] = Some scenario_junction \<and>
   totalImpact scenario_junction scenario_changes = Fin 132.5 \<and>
   (\<exists>b a. fst (simulateTrafficChanges Math_sin_rounded no_results [scenario_junction]
                  (fixed_clock 0) ''j1'' scenario_changes 0)
             = Inr (Simulated \<lparr> sim_result.before = b, after = a \<rparr>) \<and>
           averageDelay b = Fin 68 \<and> throughput b = Fin 400 \<and>
           snapshot.lanes a = Some (Fin 3) \<and>
           averageTraffic a = Fin 294 \<and>
           averageDelay a = Fin 54.75 \<and>
           throughput a = Fin 532.5)"
proof -
  have f: "find (\<lambda>j. junction_id j = ''j1'') [scenario_junction] = Some scenario_junction"
    by (simp add: scenario_junction_def)
  from after_snapshot_formulas [of no_results "''j1''" "[scenario_junction]" scenario_junction
         Math_sin_rounded "fixed_clock 0" scenario_changes 0, OF no_results_lookup f]
  obtain b a where
    r: "fst (simulateTrafficChanges Math_sin_rounded no_results [scenario_junction]
               (fixed_clock 0) ''j1'' scenario_changes 0)
          = Inr (Simulated \<lparr> sim_result.before = b, after = a \<rparr>)"
    and la: "snapshot.lanes a
          = Some (d_add (to_number (junction.lanes scenario_junction))
                    (to_number (additionalLanes scenario_changes)))"
    and tr: "averageTraffic a
          = Math_max (Fin 100)
              (Math_round (d_sub (d_mul (currentTrafficCount scenario_junction) (rnd 0.9))
                 (d_mul (totalImpact scenario_junction scenario_changes) (Fin 0.5))))"
    and de: "averageDelay a
          = Math_max (Fin 5) (d_sub (averageDelay b)
              (d_mul (totalImpact scenario_junction scenario_changes) (rnd 0.1)))"
    and th: "throughput a
          = Math_max (Fin 200) (d_add (throughput b)
              (totalImpact scenario_junction scenario_changes))"
    by blast
  from r have b: "b = fst (before_snapshot Math_sin_rounded (fixed_clock 0) scenario_junction 0)"
    by (simp add: simulate_found [OF no_results_lookup f])
  have bd: "averageDelay b = Fin 68"
    by (simp add: b before_snapshot_eq scenario_delay)
  have bt: "throughput b = Fin 400"
    by (simp add: b before_snapshot_eq scenario_throughput)
  have h: "d_mul (Fin (265 / 2)) (Fin (1 / 2)) = Fin (265 / 4)"
    by (simp add: d_mul_def exact_values)
  have la': "snapshot.lanes a = Some (Fin 3)"
    using la rnd_quarter [of 12] by (simp add: scenario_junction_def scenario_changes_def)
  have tr': "averageTraffic a = Fin 294"
  proof -
    have "\<lfloor>(1175 / 4 :: real) + 1 / 2\<rfloor> = 294" by linarith
    then have "Math_round (Fin (1175 / 4)) = Fin 294" by simp
    then show ?thesis
      using tr
      by (simp add: scenario_totalImpact scenario_count product_400_09 h d_sub_def
            exact_values)
  qed
  have de': "averageDelay a = Fin 54.75"
    using de by (simp add: bd scenario_totalImpact product_impact_01 d_sub_def exact_values)
  have th': "throughput a = Fin 532.5"
    using th by (simp add: bt scenario_totalImpact exact_values)
  from no_results_lookup f scenario_totalImpact r bd bt la' tr' de' th' show ?thesis by blast
qed

section \<open>The floors of the "after" snapshot\<close>

lemma max_floor_or_nan: "Math_max (Fin a) y = NotANumber \<or> d_le (Fin a) (Math_max (Fin a) y)"
  by (cases y) auto

lemma max_floor:
  assumes "y \<noteq> NotANumber"
  shows "d_le (Fin a) (Math_max (Fin a) y)"
  using assms by (cases y) auto

lemma round_not_nan:
  assumes "x \<noteq> NotANumber"
  shows "Math_round x \<noteq> NotANumber"
  using assms by (cases x) auto

lemma neg_finite:
  assumes "is_finite y"
  shows "is_finite (d_neg y)"
  using assms huge_pos by (cases y) auto

lemma add_const_not_nan:
  assumes "y \<noteq> NotANumber"
  shows "d_add (Fin a) y \<noteq> NotANumber"
  using assms by (cases y) (simp_all add: rnd_not_nan)

lemma add_not_nan:
  assumes "x \<noteq> NotANumber" and "is_finite y"
  shows "d_add x y \<noteq> NotANumber"
  using assms by (cases x; cases y) (simp_all add: rnd_not_nan)

lemma sub_not_nan:
  assumes "x \<noteq> NotANumber" and "is_finite y"
  shows "d_sub x y \<noteq> NotANumber"
  unfolding d_sub_def using assms(1) neg_finite [OF assms(2)] by (rule add_not_nan)

lemma mul_not_nan:
  assumes "x \<noteq> NotANumber" and "v \<noteq> 0"
  shows "d_mul x (Fin v) \<noteq> NotANumber"
  using assms by (cases x) (simp_all add: d_mul_def zero_of_def inf_of_def rnd_not_nan)

lemma div_not_nan:
  assumes "x \<noteq> NotANumber" and "v \<noteq> 0"
  shows "d_div x (Fin v) \<noteq> NotANumber"
  using assms by (cases x) (simp_all add: d_div_def zero_of_def inf_of_def rnd_not_nan)

lemma mul_small_finite:
  assumes "is_finite x" and "\<bar>v\<bar> \<le> 1 / 2"
  shows "is_finite (d_mul x (Fin v))"
proof (cases x)
  case (Fin a)
  show ?thesis
  proof (cases "a = 0 \<or> v = 0")
    case True
    then show ?thesis using huge_pos by (auto simp add: Fin d_mul_def zero_of_def)
  next
    case False
    from assms(1) Fin have a: "\<bar>a\<bar> < huge" by simp
    have "\<bar>a * v\<bar> = \<bar>a\<bar> * \<bar>v\<bar>" by (rule abs_mult)
    also have "\<dots> \<le> \<bar>a\<bar> * (1 / 2)" using assms(2) by (intro mult_left_mono) simp_all
    also have "\<dots> < huge * (1 / 2)" using a by simp
    also have "\<dots> \<le> huge - 2 ^ 970" by (simp add: huge_def)
    finally have "is_finite (rnd (a * v))" by (rule rnd_finite)
    with False show ?thesis by (simp add: Fin d_mul_def)
  qed
next
  case NegZero
  then show ?thesis using huge_pos by (simp add: d_mul_def zero_of_def)
qed (use assms in simp_all)

lemma delay_not_nan:
  assumes "is_finite (currentTrafficCount j)" and "is_finite (capacity j)"
    and "d_lt (Fin 0) (capacity j)"
  shows "calculateMockDelay j \<noteq> NotANumber"
proof -
  have "d_div (currentTrafficCount j) (capacity j) \<noteq> NotANumber"
    using assms
    by (cases "currentTrafficCount j"; cases "capacity j")
      (simp_all add: d_div_def zero_of_def inf_of_def rnd_not_nan)
  then show ?thesis
    unfolding calculateMockDelay_def Let_def
    by (intro div_not_nan round_not_nan mul_not_nan add_const_not_nan) simp_all
qed

text \<open>
  C4, as the code has it. Each of \<open>averageTraffic\<close>, \<open>averageDelay\<close> and
  \<open>throughput\<close> of the "after" snapshot is \<open>NaN\<close> or at least its floor (100, 5 and
  200), possibly \<open>Infinity\<close>. When the traffic count is finite, the capacity is finite
  and above 0, and \<open>totalImpact\<close> is finite, none of them is \<open>NaN\<close>: the three floors
  hold, whatever the size and the sign of \<open>totalImpact\<close>.
\<close>

theorem after_snapshot_floors:
  "(averageTraffic (fst (after_snapshot msin clk j c k)) = NotANumber \<or>
    d_le (Fin 100) (averageTraffic (fst (after_snapshot msin clk j c k)))) \<and>
   (averageDelay (fst (after_snapshot msin clk j c k)) = NotANumber \<or>
    d_le (Fin 5) (averageDelay (fst (after_snapshot msin clk j c k)))) \<and>
   (throughput (fst (after_snapshot msin clk j c k)) = NotANumber \<or>
    d_le (Fin 200) (throughput (fst (after_snapshot msin clk j c k)))) \<and>
   (is_finite (currentTrafficCount j) \<and> is_finite (capacity j) \<and> d_lt (Fin 0) (capacity j) \<and>
    is_finite (totalImpact j c) \<longrightarrow>
      d_le (Fin 100) (averageTraffic (fst (after_snapshot msin clk j c k))) \<and>
      d_le (Fin 5) (averageDelay (fst (after_snapshot msin clk j c k))) \<and>
      d_le (Fin 200) (throughput (fst (after_snapshot msin clk j c k))))"
proof -
  let ?a = "fst (after_snapshot msin clk j c k)"
  let ?x = "Math_round (d_sub (d_mul (currentTrafficCount j) (rnd 0.9))
                               (d_mul (totalImpact j c) (Fin 0.5)))"
  let ?y = "d_sub (calculateMockDelay j) (d_mul (totalImpact j c) (rnd 0.1))"
  let ?z = "d_add (calculateMockThroughput j) (totalImpact j c)"
  have tr: "averageTraffic ?a = Math_max (Fin 100) ?x"
    and de: "averageDelay ?a = Math_max (Fin 5) ?y"
    and th: "throughput ?a = Math_max (Fin 200) ?z"
    by (simp_all add: after_snapshot_eq)
  have 1: "averageTraffic ?a = NotANumber \<or> d_le (Fin 100) (averageTraffic ?a)"
    unfolding tr by (rule max_floor_or_nan)
  have 2: "averageDelay ?a = NotANumber \<or> d_le (Fin 5) (averageDelay ?a)"
    unfolding de by (rule max_floor_or_nan)
  have 3: "throughput ?a = NotANumber \<or> d_le (Fin 200) (throughput ?a)"
    unfolding th by (rule max_floor_or_nan)
  have 4: "d_le (Fin 100) (averageTraffic ?a) \<and> d_le (Fin 5) (averageDelay ?a) \<and>
           d_le (Fin 200) (throughput ?a)"
    if h: "is_finite (currentTrafficCount j) \<and> is_finite (capacity j) \<and>
           d_lt (Fin 0) (capacity j) \<and> is_finite (totalImpact j c)"
  proof -
    from h have cnt: "is_finite (currentTrafficCount j)" and cap: "is_finite (capacity j)"
      and pos: "d_lt (Fin 0) (capacity j)" and ti: "is_finite (totalImpact j c)" by blast+
    from cnt have cn: "currentTrafficCount j \<noteq> NotANumber" by auto
    from cap have cp: "capacity j \<noteq> NotANumber" by auto
    have half: "is_finite (d_mul (totalImpact j c) (Fin 0.5))"
      using ti by (rule mul_small_finite) simp
    have "is_finite (d_mul (totalImpact j c) (Fin (3602879701896397 / 36028797018963968)))"
      using ti by (rule mul_small_finite) simp
    then have tenth: "is_finite (d_mul (totalImpact j c) (rnd 0.1))"
      by (simp add: literal_01)
    have "d_mul (currentTrafficCount j) (Fin (8106479329266893 / 9007199254740992))
            \<noteq> NotANumber"
      using cn by (rule mul_not_nan) simp
    then have "d_mul (currentTrafficCount j) (rnd 0.9) \<noteq> NotANumber"
      by (simp add: literal_09)
    then have x: "?x \<noteq> NotANumber" using half by (intro round_not_nan sub_not_nan)
    have y: "?y \<noteq> NotANumber"
      using delay_not_nan [OF cnt cap pos] tenth by (rule sub_not_nan)
    have "d_mul (capacity j) (Fin (3602879701896397 / 4503599627370496)) \<noteq> NotANumber"
      using cp by (rule mul_not_nan) simp
    then have "d_mul (capacity j) (rnd 0.8) \<noteq> NotANumber"
      by (simp add: literal_08)
    then have "calculateMockThroughput j \<noteq> NotANumber"
      unfolding calculateMockThroughput_def by (rule round_not_nan)
    then have z: "?z \<noteq> NotANumber" using ti by (rule add_not_nan)
    show ?thesis unfolding tr de th using x y z by (intro conjI max_floor)
  qed
  from 1 2 3 4 show ?thesis by blast
qed

lemma nan_absorbs:
  "d_mul NotANumber y = NotANumber" "d_add x NotANumber = NotANumber"
  "d_sub x NotANumber = NotANumber"
  by (simp add: d_mul_def, cases x, simp_all add: d_sub_def, cases x, simp_all)

lemma ten_lanes_totalImpact: "totalImpact scenario_junction ten_lanes_changes = Fin 1000"
  by (simp add: totalImpact_def laneWidthImpact_def speedLimitImpact_def
        signalTimingImpact_def lanesImpact_def d_sub_def d_mul_def zero_of_def
        scenario_junction_def ten_lanes_changes_def exact_values)

theorem after_snapshot_floors_witness:
  "is_finite (currentTrafficCount scenario_junction) \<and> is_finite (capacity scenario_junction) \<and>
   d_lt (Fin 0) (capacity scenario_junction) \<and>
   totalImpact scenario_junction ten_lanes_changes = Fin 1000 \<and> is_finite (Fin 1000) \<and>
   averageTraffic (fst (after_snapshot Math_sin_rounded (fixed_clock 0) scenario_junction
                          ten_lanes_changes 1)) = Fin 100 \<and>
   averageDelay (fst (after_snapshot Math_sin_rounded (fixed_clock 0) scenario_junction
                        ten_lanes_changes 1)) = Fin 5 \<and>
   throughput (fst (after_snapshot Math_sin_rounded (fixed_clock 0) scenario_junction
                      ten_lanes_changes 1)) = Fin 1400 \<and>
   d_le (Fin 100) (Fin 100) \<and> d_le (Fin 5) (Fin 5) \<and> d_le (Fin 200) (Fin 1400)"
proof -
  let ?a = "fst (after_snapshot Math_sin_rounded (fixed_clock 0) scenario_junction
                   ten_lanes_changes 1)"
  have fin: "is_finite (currentTrafficCount scenario_junction)"
    "is_finite (capacity scenario_junction)" "d_lt (Fin 0) (capacity scenario_junction)"
    "is_finite (Fin 1000)"
    by (simp_all add: scenario_count scenario_capacity huge_def)
  have h: "d_mul (Fin 1000) (Fin (1 / 2)) = Fin 500" by (simp add: d_mul_def exact_values)
  have tr: "averageTraffic ?a = Fin 100"
    by (simp add: after_snapshot_eq ten_lanes_totalImpact scenario_count product_400_09 h
          d_sub_def exact_negative_values)
  have de: "averageDelay ?a = Fin 5"
    by (simp add: after_snapshot_eq ten_lanes_totalImpact scenario_delay product_1000_01
          d_sub_def exact_negative_values)
  have th: "throughput ?a = Fin 1400"
    by (simp add: after_snapshot_eq ten_lanes_totalImpact scenario_throughput exact_values)
  from after_snapshot_floors [of Math_sin_rounded "fixed_clock 0" scenario_junction
         ten_lanes_changes 1] fin(1-3)
  have "is_finite (totalImpact scenario_junction ten_lanes_changes) \<longrightarrow>
          d_le (Fin 100) (averageTraffic ?a) \<and> d_le (Fin 5) (averageDelay ?a) \<and>
          d_le (Fin 200) (throughput ?a)"
    by blast
  with fin(4) have "d_le (Fin 100) (averageTraffic ?a) \<and> d_le (Fin 5) (averageDelay ?a) \<and>
          d_le (Fin 200) (throughput ?a)"
    by (simp only: ten_lanes_totalImpact)
  then have "d_le (Fin 100) (Fin 100) \<and> d_le (Fin 5) (Fin 5) \<and> d_le (Fin 200) (Fin 1400)"
    by (simp only: tr de th)
  with fin ten_lanes_totalImpact tr de th show ?thesis by blast
qed

text \<open>
  The impact overflows for a lane width of \<open>2^1023\<close> and a speed limit of
  \<open>-2^1023\<close>: the lane width term is \<open>Infinity\<close>, the speed limit term is
  \<open>-Infinity\<close>, and their sum is \<open>NaN\<close>.
\<close>

lemma overflow_totalImpact: "totalImpact scenario_junction overflow_changes = NotANumber"
proof -
  have w: "d_sub (Fin (2 ^ 1023)) (Fin 3) = Fin (2 ^ 1023)"
    using rnd_eval [of 1022 "2 ^ 1023 - 3" "2 ^ 53"] by (simp add: d_sub_def huge_def)
  have "huge \<le> 2 ^ 1023 * 20" by (simp add: huge_def)
  then have "rnd (2 ^ 1023 * 20) = PosInf" by (rule rnd_overflow)
  then have lw: "d_mul (Fin (2 ^ 1023)) (Fin 20) = PosInf" by (simp add: d_mul_def)
  have "rnd (2 ^ 1023 + 30) = Fin (2 ^ 1023)"
    using rnd_eval [of 1023 "2 ^ 1023 + 30" "2 ^ 52"] by (simp add: huge_def)
  then have "rnd (- (2 ^ 1023 + 30)) = Fin (- (2 ^ 1023))"
    using rnd_minus [of "2 ^ 1023 + 30"] by simp
  then have s: "d_sub (Fin (- (2 ^ 1023))) (Fin 30) = Fin (- (2 ^ 1023))"
    by (simp add: d_sub_def)
  have "huge \<le> 2 ^ 1023 * 2" by (simp add: huge_def)
  then have "rnd (2 ^ 1023 * 2) = PosInf" by (rule rnd_overflow)
  then have "rnd (- (2 ^ 1023 * 2)) = NegInf"
    using rnd_minus [of "2 ^ 1023 * 2"] by simp
  then have sl: "d_mul (Fin (- (2 ^ 1023))) (Fin 2) = NegInf" by (simp add: d_mul_def)
  have a: "laneWidthImpact scenario_junction overflow_changes = PosInf"
    by (simp only: laneWidthImpact_def scenario_junction_def overflow_changes_def
          junction.simps changes.simps to_number.simps w lw)
  have b: "speedLimitImpact scenario_junction overflow_changes = NegInf"
    by (simp only: speedLimitImpact_def scenario_junction_def overflow_changes_def
          junction.simps changes.simps to_number.simps s sl)
  show ?thesis by (simp add: totalImpact_def a b)
qed

text \<open>
  C4 as stated fails: the fields of the junction and of the change request are finite,
  the capacity is above 0, and the three metrics of the "after" snapshot are \<open>NaN\<close>,
  which is not at least any floor.
\<close>

theorem after_snapshot_floors_counterexample:
  "is_finite (currentTrafficCount scenario_junction) \<and> is_finite (capacity scenario_junction) \<and>
   d_lt (Fin 0) (capacity scenario_junction) \<and>
   changes.laneWidth overflow_changes = Some (Fin (2 ^ 1023)) \<and>
   changes.speedLimit overflow_changes = Some (Fin (- (2 ^ 1023))) \<and>
   rnd (2 ^ 1023) = Fin (2 ^ 1023) \<and> is_finite (Fin (2 ^ 1023)) \<and>
   is_finite (Fin (- (2 ^ 1023))) \<and>
   totalImpact scenario_junction overflow_changes = NotANumber \<and>
   averageTraffic (fst (after_snapshot Math_sin_rounded (fixed_clock 0) scenario_junction
                          overflow_changes 1)) = NotANumber \<and>
   averageDelay (fst (after_snapshot Math_sin_rounded (fixed_clock 0) scenario_junction
                        overflow_changes 1)) = NotANumber \<and>
   throughput (fst (after_snapshot Math_sin_rounded (fixed_clock 0) scenario_junction
                      overflow_changes 1)) = NotANumber \<and>
   \<not> d_le (Fin 100) (averageTraffic (fst (after_snapshot Math_sin_rounded (fixed_clock 0)
                                            scenario_junction overflow_changes 1))) \<and>
   \<not> d_le (Fin 5) (averageDelay (fst (after_snapshot Math_sin_rounded (fixed_clock 0)
                                         scenario_junction overflow_changes 1))) \<and>
   \<not> d_le (Fin 200) (throughput (fst (after_snapshot Math_sin_rounded (fixed_clock 0)
                                         scenario_junction overflow_changes 1)))"
proof -
  let ?a = "fst (after_snapshot Math_sin_rounded (fixed_clock 0) scenario_junction
                   overflow_changes 1)"
  have fin: "is_finite (currentTrafficCount scenario_junction)"
    "is_finite (capacity scenario_junction)" "d_lt (Fin 0) (capacity scenario_junction)"
    "is_finite (Fin (2 ^ 1023))" "is_finite (Fin (- (2 ^ 1023)))"
    by (simp_all add: scenario_count scenario_capacity huge_def)
  have c: "changes.laneWidth overflow_changes = Some (Fin (2 ^ 1023))"
    "changes.speedLimit overflow_changes = Some (Fin (- (2 ^ 1023)))"
    by (simp_all add: overflow_changes_def)
  have r: "rnd (2 ^ 1023) = Fin (2 ^ 1023)"
    using rnd_exact [of 1 1023] by (simp add: huge_def)
  have m: "averageTraffic ?a = NotANumber" "averageDelay ?a = NotANumber"
    "throughput ?a = NotANumber"
    by (simp_all add: after_snapshot_eq overflow_totalImpact nan_absorbs)
  have n: "\<not> d_le (Fin 100) (averageTraffic ?a)" "\<not> d_le (Fin 5) (averageDelay ?a)"
    "\<not> d_le (Fin 200) (throughput ?a)"
    by (simp_all only: m d_le.simps not_False_eq_True)
  from fin c r overflow_totalImpact m n show ?thesis by blast
qed

section \<open>No check of the capacity\<close>

lemma delay_zero_capacity:
  assumes "currentTrafficCount j = Fin t" and "0 < t"
  shows "capacity j = Fin 0 \<Longrightarrow> calculateMockDelay j = PosInf"
    and "capacity j = NegZero \<Longrightarrow> calculateMockDelay j = NegInf"
  using assms by (simp_all add: calculateMockDelay_def d_div_def d_mul_def inf_of_def)

lemma delay_zero_by_zero:
  assumes "is_zero (capacity j)" and "is_zero (currentTrafficCount j)"
  shows "calculateMockDelay j = NotANumber"
  using assms by (simp add: calculateMockDelay_def d_div_def d_mul_def)

lemma after_delay_cases:
  "Math_max (Fin 5) (d_sub PosInf y) = PosInf \<or> Math_max (Fin 5) (d_sub PosInf y) = NotANumber"
  "Math_max (Fin 5) (d_sub NegInf y) = Fin 5 \<or> Math_max (Fin 5) (d_sub NegInf y) = NotANumber"
  by (cases y; simp add: d_sub_def)+

text \<open>
  C1, as the code has it. \<open>simulateTrafficChanges\<close> checks no capacity and has no error
  for it: when the lookup in the precomputed data set gives nothing that counts as true
  and the identifier is that of a junction of the junctions data set, it returns a
  before/after pair, whatever the capacity. With a finite traffic count above 0, a
  capacity of \<open>+0\<close> makes the \<open>averageDelay\<close> of "before" \<open>Infinity\<close> and that of
  "after" \<open>Infinity\<close> or \<open>NaN\<close>; a capacity of \<open>-0\<close> makes the \<open>averageDelay\<close> of
  "before" \<open>-Infinity\<close> and that of "after" 5 or \<open>NaN\<close>. When the capacity and the
  traffic count are both zero, the two delays are \<open>NaN\<close>.
\<close>

theorem zero_capacity_returns_snapshot:
  assumes "\<not> lookup_truthy simulationResultsData junctionId"
    and "find (\<lambda>j. junction_id j = junctionId) junctionsData = Some j"
  shows "\<exists>r. fst (simulateTrafficChanges msin simulationResultsData junctionsData clk
                    junctionId c k)
               = Inr (Simulated r) \<and>
             (\<forall>t. capacity j = Fin 0 \<and> currentTrafficCount j = Fin t \<and> 0 < t \<longrightarrow>
                averageDelay (sim_result.before r) = PosInf \<and>
                (averageDelay (sim_result.after r) = PosInf \<or>
                 averageDelay (sim_result.after r) = NotANumber)) \<and>
             (\<forall>t. capacity j = NegZero \<and> currentTrafficCount j = Fin t \<and> 0 < t \<longrightarrow>
                averageDelay (sim_result.before r) = NegInf \<and>
                (averageDelay (sim_result.after r) = Fin 5 \<or>
                 averageDelay (sim_result.after r) = NotANumber)) \<and>
             (is_zero (capacity j) \<and> is_zero (currentTrafficCount j) \<longrightarrow>
                averageDelay (sim_result.before r) = NotANumber \<and>
                averageDelay (sim_result.after r) = NotANumber)"
proof -
  let ?r = "\<lparr> sim_result.before = fst (before_snapshot msin clk j k),
               after = fst (after_snapshot msin clk j c (Suc k)) \<rparr>"
  let ?e = "d_mul (totalImpact j c) (rnd 0.1)"
  have A: "averageDelay (sim_result.before ?r) = calculateMockDelay j"
    by (simp add: before_snapshot_eq)
  have B: "averageDelay (sim_result.after ?r) = Math_max (Fin 5) (d_sub (calculateMockDelay j) ?e)"
    by (simp add: after_snapshot_eq)
  have R: "fst (simulateTrafficChanges msin simulationResultsData junctionsData clk
                  junctionId c k) = Inr (Simulated ?r)"
    by (simp add: simulate_found [OF assms])
  have P: "averageDelay (sim_result.before ?r) = PosInf \<and>
           (averageDelay (sim_result.after ?r) = PosInf \<or>
            averageDelay (sim_result.after ?r) = NotANumber)"
    if h: "capacity j = Fin 0 \<and> currentTrafficCount j = Fin t \<and> 0 < t" for t
  proof -
    from h have "calculateMockDelay j = PosInf" by (intro delay_zero_capacity(1)) auto
    then show ?thesis unfolding A B using after_delay_cases(1) [of ?e] by simp
  qed
  have N: "averageDelay (sim_result.before ?r) = NegInf \<and>
           (averageDelay (sim_result.after ?r) = Fin 5 \<or>
            averageDelay (sim_result.after ?r) = NotANumber)"
    if h: "capacity j = NegZero \<and> currentTrafficCount j = Fin t \<and> 0 < t" for t
  proof -
    from h have "calculateMockDelay j = NegInf" by (intro delay_zero_capacity(2)) auto
    then show ?thesis unfolding A B using after_delay_cases(2) [of ?e] by simp
  qed
  have Z: "averageDelay (sim_result.before ?r) = NotANumber \<and>
           averageDelay (sim_result.after ?r) = NotANumber"
    if h: "is_zero (capacity j) \<and> is_zero (currentTrafficCount j)"
  proof -
    from h have "calculateMockDelay j = NotANumber" by (intro delay_zero_by_zero) auto
    then show ?thesis unfolding A B by (simp add: d_sub_def)
  qed
  from R P N Z show ?thesis by blast
qed

lemma zero_capacity_delays:
  "averageDelay (fst (before_snapshot msin clk zero_capacity_junction k)) = PosInf"
  "averageDelay (fst (after_snapshot msin clk zero_capacity_junction scenario_changes k)) = PosInf"
proof -
  have c: "capacity zero_capacity_junction = Fin 0"
    "currentTrafficCount zero_capacity_junction = Fin 400"
    by (simp_all add: zero_capacity_junction_def scenario_junction_def)
  have d: "calculateMockDelay zero_capacity_junction = PosInf"
    using delay_zero_capacity(1) [OF c(2) _ c(1)] by simp
  have ti: "totalImpact zero_capacity_junction scenario_changes = Fin 132.5"
    using scenario_totalImpact
    by (simp add: totalImpact_def laneWidthImpact_def speedLimitImpact_def
          signalTimingImpact_def lanesImpact_def zero_capacity_junction_def)
  show "averageDelay (fst (before_snapshot msin clk zero_capacity_junction k)) = PosInf"
    by (simp add: before_snapshot_eq d)
  show "averageDelay (fst (after_snapshot msin clk zero_capacity_junction scenario_changes k))
          = PosInf"
    by (simp add: after_snapshot_eq d ti product_impact_01 d_sub_def)
qed

lemma zero_capacity_found:
  "find (\<lambda>j. junction_id j = ''j1'') [zero_capacity_junction] = Some zero_capacity_junction"
  by (simp add: zero_capacity_junction_def scenario_junction_def)

theorem zero_capacity_returns_snapshot_witness:
  "\<not> lookup_truthy no_results ''j1'' \<and>
   find (\<lambda>j. junction_id j = ''j1'') [zero_capacity_junction] = Some zero_capacity_junction \<and>
   capacity zero_capacity_junction = Fin 0 \<and>
   currentTrafficCount zero_capacity_junction = Fin 400 \<and> (0::real) < 400 \<and>
   (\<exists>r. fst (simulateTrafficChanges Math_sin_rounded no_results
               [zero_capacity_junction] (fixed_clock 0) ''j1'' scenario_changes 0)
          = Inr (Simulated r) \<and>
        averageDelay (sim_result.before r) = PosInf \<and>
        (averageDelay (sim_result.after r) = PosInf \<or>
         averageDelay (sim_result.after r) = NotANumber))"
proof -
  have cap: "capacity zero_capacity_junction = Fin 0"
    and cnt: "currentTrafficCount zero_capacity_junction = Fin 400"
    by (simp_all add: zero_capacity_junction_def scenario_junction_def)
  from zero_capacity_returns_snapshot [of no_results "''j1''" "[zero_capacity_junction]"
         zero_capacity_junction Math_sin_rounded "fixed_clock 0" scenario_changes 0,
         OF no_results_lookup zero_capacity_found]
  obtain r where r: "fst (simulateTrafficChanges Math_sin_rounded no_results
               [zero_capacity_junction] (fixed_clock 0) ''j1'' scenario_changes 0)
          = Inr (Simulated r)"
    and z: "\<forall>t. capacity zero_capacity_junction = Fin 0 \<and>
              currentTrafficCount zero_capacity_junction = Fin t \<and> 0 < t \<longrightarrow>
                averageDelay (sim_result.before r) = PosInf \<and>
                (averageDelay (sim_result.after r) = PosInf \<or>
                 averageDelay (sim_result.after r) = NotANumber)"
    by blast
  from z cap cnt have "averageDelay (sim_result.before r) = PosInf \<and>
                (averageDelay (sim_result.after r) = PosInf \<or>
                 averageDelay (sim_result.after r) = NotANumber)"
    by simp
  with r no_results_lookup zero_capacity_found cap cnt show ?thesis by auto
qed

text \<open>
  C1 as stated fails: for the scenario's junction with capacity 0 the simulation returns
  the pair of snapshots, no error, and both delays are \<open>Infinity\<close>.
\<close>

theorem zero_capacity_counterexample:
  "fst (simulateTrafficChanges Math_sin_rounded no_results [zero_capacity_junction]
          (fixed_clock 0) ''j1'' scenario_changes 0)
     = Inr (Simulated
         \<lparr> sim_result.before
             = fst (before_snapshot Math_sin_rounded (fixed_clock 0) zero_capacity_junction 0),
           after = fst (after_snapshot Math_sin_rounded (fixed_clock 0) zero_capacity_junction
                          scenario_changes 1) \<rparr>) \<and>
   capacity zero_capacity_junction = Fin 0 \<and>
   averageDelay (fst (before_snapshot Math_sin_rounded (fixed_clock 0) zero_capacity_junction 0))
     = PosInf \<and>
   averageDelay (fst (after_snapshot Math_sin_rounded (fixed_clock 0) zero_capacity_junction
                        scenario_changes 1))
     = PosInf"
proof -
  have c: "capacity zero_capacity_junction = Fin 0"
    by (simp add: zero_capacity_junction_def)
  have r: "fst (simulateTrafficChanges Math_sin_rounded no_results [zero_capacity_junction]
          (fixed_clock 0) ''j1'' scenario_changes 0)
     = Inr (Simulated
         \<lparr> sim_result.before
             = fst (before_snapshot Math_sin_rounded (fixed_clock 0) zero_capacity_junction 0),
           after = fst (after_snapshot Math_sin_rounded (fixed_clock 0) zero_capacity_junction
                          scenario_changes 1) \<rparr>)"
    by (simp add: simulate_found [OF no_results_lookup zero_capacity_found])
  from r c zero_capacity_delays show ?thesis by blast
qed

section \<open>Precomputed results and unknown junctions\<close>

text \<open>
  C9, as the code has it. For an identifier whose entry in the precomputed data set counts
  as true in a condition (every object and array does, and so does every entry other than
  \<open>null\<close>, \<open>false\<close>, a zero and the empty string), \<open>simulateTrafficChanges\<close> returns
  that entry unchanged (\<open>Own r\<close>, the entry of the data file itself), whatever the
  \<open>changes\<close> argument and the junctions data set are; the clock is not read, so no flow
  series and no metric is computed.
\<close>

theorem precomputed_entry_returned:
  assumes "simulationResultsData junctionId = Some r" and "json_truthy r"
  shows "simulateTrafficChanges msin simulationResultsData junctionsData clk junctionId c k
           = (Inr (Precomputed (Own r)), k)"
  using assms by (simp add: simulateTrafficChanges_def js_get_Own)

theorem precomputed_entry_returned_witness:
  "stored_results ''j1'' = Some stored_entry \<and> json_truthy stored_entry \<and>
   simulateTrafficChanges Math_sin_rounded stored_results [scenario_junction] (fixed_clock 0)
       ''j1'' scenario_changes 0
     = (Inr (Precomputed (Own stored_entry)), 0)"
proof -
  have e: "stored_results ''j1'' = Some stored_entry" by (simp add: stored_results_def)
  have t: "json_truthy stored_entry" by (simp add: stored_entry_def)
  from precomputed_entry_returned [of stored_results "''j1''" stored_entry Math_sin_rounded
         "[scenario_junction]" "fixed_clock 0" scenario_changes 0, OF e t] e t
  show ?thesis by blast
qed

lemma scenario_found:
  "find (\<lambda>j. junction_id j = ''j1'') [scenario_junction] = Some scenario_junction"
  by (simp add: scenario_junction_def)

lemma after_throughputs:
  "throughput (fst (after_snapshot msin clk scenario_junction scenario_changes k)) = Fin 532.5"
  "throughput (fst (after_snapshot msin clk scenario_junction ten_lanes_changes k)) = Fin 1400"
  by (simp_all add: after_snapshot_eq scenario_totalImpact ten_lanes_totalImpact
        scenario_throughput exact_values)

text \<open>
  C9 as stated fails: the data set has the entry \<open>null\<close> for \<open>j1\<close>, and the
  simulation does not return it: it reads the clock twice and computes the two snapshots
  of the junction \<open>j1\<close>, whose "after" throughput depends on the change request.
\<close>

theorem falsy_entry_counterexample:
  "null_results ''j1'' = Some JNull \<and>
   simulateTrafficChanges Math_sin_rounded null_results [scenario_junction] (fixed_clock 0)
       ''j1'' scenario_changes 0
     = (Inr (Simulated
          \<lparr> sim_result.before
              = fst (before_snapshot Math_sin_rounded (fixed_clock 0) scenario_junction 0),
            after = fst (after_snapshot Math_sin_rounded (fixed_clock 0) scenario_junction
                           scenario_changes 1) \<rparr>), 2) \<and>
   throughput (fst (after_snapshot Math_sin_rounded (fixed_clock 0) scenario_junction
                      scenario_changes 1)) = Fin 532.5 \<and>
   throughput (fst (after_snapshot Math_sin_rounded (fixed_clock 0) scenario_junction
                      ten_lanes_changes 1)) = Fin 1400"
proof -
  have e: "null_results ''j1'' = Some JNull" by (simp add: null_results_def)
  then have "\<not> lookup_truthy null_results ''j1''"
    by (simp add: lookup_truthy_def js_get_def)
  from simulate_found [OF this scenario_found] e after_throughputs show ?thesis by simp
qed

text \<open>
  When the lookup in the precomputed data set gives nothing that counts as true and the
  junctions data set has no junction of the identifier, \<open>simulateTrafficChanges\<close> fails
  with the error "Junction with ID ... not found"; the clock is not read, so nothing is
  computed.
\<close>

lemma not_found_when_lookup_fails:
  assumes "\<not> lookup_truthy simulationResultsData junctionId"
    and "\<forall>j \<in> set junctionsData. junction_id j \<noteq> junctionId"
  shows "simulateTrafficChanges msin simulationResultsData junctionsData clk junctionId c k
           = (Inl (Error (''Junction with ID '' @ junctionId @ '' not found'')), k)"
proof -
  from assms(2) have "find (\<lambda>j. junction_id j = junctionId) junctionsData = None"
    by (simp add: find_None_iff)
  then show ?thesis
    by (simp add: simulate_fresh [OF assms(1)] simulate_junction_def fetchJunctionById_def)
qed

text \<open>
  C10. The identifier \<open>constructor\<close> is in neither data set, and the simulation does
  not fail with the not-found error: the lookup in the precomputed data set finds the
  member that the object inherits under that name, and the simulation returns it.
\<close>

theorem inherited_member_returned:
  "no_results ''constructor'' = None \<and>
   junction_id scenario_junction \<noteq> ''constructor'' \<and>
   simulateTrafficChanges msin no_results [scenario_junction] (fixed_clock 0) ''constructor''
       scenario_changes 0
     = (Inr (Precomputed (Inherited ''constructor'')), 0)"
  by (simp add: simulateTrafficChanges_def js_get_def Object_prototype_names_def
        scenario_junction_def no_results_def)

section \<open>The hour factor\<close>








section \<open>The junction index and the entries of the flow series\<close>

lemma decimal_digit_cases:
  assumes "is_decimal_digit c"
  obtains "c = CHR ''0''" | "c = CHR ''1''" | "c = CHR ''2''" | "c = CHR ''3''" | "c = CHR ''4''"
    | "c = CHR ''5''" | "c = CHR ''6''" | "c = CHR ''7''" | "c = CHR ''8''" | "c = CHR ''9''"
  using assms unfolding is_decimal_digit_def by (simp only: set_simps insert_iff empty_iff) blast

lemma digit_in_decimal: "digit_in 10 c \<noteq> None \<longleftrightarrow> is_decimal_digit c"
  by (simp add: digit_in_def digit_table_def is_decimal_digit_def)

lemma digit_in_decimal_value:
  assumes "is_decimal_digit c"
  shows "digit_in 10 c = Some (of_char c - 48)"
  using assms by (cases rule: decimal_digit_cases) (simp_all add: digit_in_def digit_table_def)

lemma decimal_digit_not_special:
  assumes "is_decimal_digit c"
  shows "white_prefix (c # cs) = 0" and "c \<noteq> CHR ''-''" and "c \<noteq> CHR ''+''"
    and "c \<noteq> CHR ''x''" and "c \<noteq> CHR ''X''"
  using assms
  by (cases rule: decimal_digit_cases;
      simp add: white_prefix_def white1_def white2_def white3_def)+

lemma set_trim_start: "set (trim_start s) \<subseteq> set s"
proof (induction s rule: trim_start.induct)
  case 1
  show ?case by simp
next
  case (2 c cs)
  show ?case
  proof (cases "white_prefix (c # cs) = 0")
    case True
    then show ?thesis by simp
  next
    case False
    with 2 have "set (trim_start (c # cs)) \<subseteq> set (drop (white_prefix (c # cs) - 1) cs)"
      by simp
    also have "\<dots> \<subseteq> set cs" by (rule set_drop_subset)
    finally show ?thesis by auto
  qed
qed

lemma digits_value_decimal:
  assumes "\<forall>c\<in>set ds. is_decimal_digit c"
  shows "digits_value 10 ds = decimal_value ds"
  unfolding digits_value_def decimal_value_def
  using assms by (intro foldl_cong) (simp_all add: digit_in_decimal_value)

lemma parseInt_digits:
  assumes "ds \<noteq> []" and "\<forall>c\<in>set ds. is_decimal_digit c"
  shows "parseInt ds
           = (if decimal_value ds = 0 then Fin 0 else rnd (real (decimal_value ds)))"
proof -
  from assms(1) obtain d ds' where ds: "ds = d # ds'" by (cases ds) auto
  with assms(2) have d: "is_decimal_digit d" by simp
  note nd = decimal_digit_not_special [OF d]
  have S: "trim_start ds = ds" using nd(1) by (simp add: ds)
  have sg: "take 1 ds \<noteq> ''-''" "take 1 ds \<noteq> ''+''" using nd(2,3) by (simp_all add: ds)
  have hx: "take 2 ds \<noteq> ''0x''" "take 2 ds \<noteq> ''0X''"
  proof -
    show "take 2 ds \<noteq> ''0x''"
    proof
      assume "take 2 ds = ''0x''"
      then have "CHR ''x'' \<in> set (take 2 ds)" by simp
      then have "CHR ''x'' \<in> set ds" by (rule in_set_takeD)
      with assms(2) have "is_decimal_digit (CHR ''x'')" by blast
      then show False by (simp add: is_decimal_digit_def)
    qed
    show "take 2 ds \<noteq> ''0X''"
    proof
      assume "take 2 ds = ''0X''"
      then have "CHR ''X'' \<in> set (take 2 ds)" by simp
      then have "CHR ''X'' \<in> set ds" by (rule in_set_takeD)
      with assms(2) have "is_decimal_digit (CHR ''X'')" by blast
      then show False by (simp add: is_decimal_digit_def)
    qed
  qed
  have "\<forall>c\<in>set ds. digit_in 10 c \<noteq> None"
    using assms(2) digit_in_decimal by blast
  then have Z: "takeWhile (\<lambda>c. digit_in 10 c \<noteq> None) ds = ds"
    by (simp only: takeWhile_eq_all_conv)
  show ?thesis
    unfolding parseInt_def S Let_def
    using sg hx assms(1)
    by (simp add: Z digits_value_decimal [OF assms(2)] zero_of_def del: not_None_eq)
qed

lemma parseInt_no_digit:
  assumes "\<forall>c\<in>set s. \<not> is_decimal_digit c"
  shows "parseInt s = NotANumber"
proof -
  define S where "S = trim_start s"
  define S1 where "S1 = (if take 1 S = ''+'' \<or> take 1 S = ''-'' then drop 1 S else S)"
  have "set S \<subseteq> set s" unfolding S_def by (rule set_trim_start)
  moreover have "set S1 \<subseteq> set S" unfolding S1_def by (auto dest: in_set_dropD)
  ultimately have no: "\<forall>c\<in>set S1. \<not> is_decimal_digit c" using assms by blast
  have hx: "take 2 S1 \<noteq> ''0x''" "take 2 S1 \<noteq> ''0X''"
  proof -
    show "take 2 S1 \<noteq> ''0x''"
    proof
      assume "take 2 S1 = ''0x''"
      then have "CHR ''0'' \<in> set (take 2 S1)" by simp
      then have "CHR ''0'' \<in> set S1" by (rule in_set_takeD)
      with no show False by (auto simp add: is_decimal_digit_def)
    qed
    show "take 2 S1 \<noteq> ''0X''"
    proof
      assume "take 2 S1 = ''0X''"
      then have "CHR ''0'' \<in> set (take 2 S1)" by simp
      then have "CHR ''0'' \<in> set S1" by (rule in_set_takeD)
      with no show False by (auto simp add: is_decimal_digit_def)
    qed
  qed
  have Z: "takeWhile (\<lambda>c. digit_in 10 c \<noteq> None) S1 = []"
  proof (cases S1)
    case Nil
    then show ?thesis by simp
  next
    case (Cons a list)
    with no have "\<not> is_decimal_digit a" by simp
    then have "\<not> digit_in 10 a \<noteq> None" using digit_in_decimal by blast
    then show ?thesis by (simp add: Cons del: not_None_eq)
  qed
  show ?thesis
    unfolding parseInt_def Let_def S_def [symmetric] S1_def [symmetric]
    using hx by (simp add: Z del: not_None_eq)
qed

lemma set_js_replace_j: "set (js_replace ''j'' '''' s) \<subseteq> set s"
  by (induction s) (auto dest: in_set_dropD)

lemma junctionIndex_digits:
  assumes "junction_id j = CHR ''j'' # ds" and "ds \<noteq> []"
    and "\<forall>c\<in>set ds. is_decimal_digit c" and "0 < decimal_value ds"
    and "decimal_value ds < 2 ^ 53"
  shows "junctionIndex j = Fin (real (decimal_value ds))"
proof -
  from assms(5) have "int (decimal_value ds) < int (2 ^ 53)" by (simp only: of_nat_less_iff)
  then have "int (decimal_value ds) < 2 ^ 53" by simp
  with assms(4) have "rnd (real_of_int (int (decimal_value ds)))
                        = Fin (real_of_int (int (decimal_value ds)))"
    by (intro rnd_int) simp_all
  then have r: "rnd (real (decimal_value ds)) = Fin (real (decimal_value ds))" by simp
  show ?thesis
    using assms(4) by (simp add: junctionIndex_def assms(1) parseInt_digits [OF assms(2,3)] r)
qed

lemma junctionIndex_no_digit:
  assumes "\<forall>c\<in>set (junction_id j). \<not> is_decimal_digit c"
  shows "junctionIndex j = Fin 1"
proof -
  from assms set_js_replace_j [of "junction_id j"]
  have "\<forall>c\<in>set (js_replace ''j'' '''' (junction_id j)). \<not> is_decimal_digit c" by blast
  then have "parseInt (js_replace ''j'' '''' (junction_id j)) = NotANumber"
    by (rule parseInt_no_digit)
  then show ?thesis by (simp add: junctionIndex_def)
qed

lemma generate_nth:
  assumes "i < 24"
  shows "fst (generateMockTrafficFlowData msin clk ty j impact k) ! i
           = flow_entry msin (clk k) ty j impact i"
  using assms by (simp add: generate_eq del: upt_Suc)

lemma truthy_iff: "truthy x \<longleftrightarrow> x \<noteq> Fin 0 \<and> x \<noteq> NegZero \<and> x \<noteq> NotANumber"
  by (cases x) auto

text \<open>
  C6, as the code has it. The code removes the first \<open>j\<close> of the identifier and reads
  a leading integer with \<open>parseInt\<close>; it does not look for a numeric suffix. For an
  identifier \<open>j\<close> followed by decimal digits of a value above 0 and below \<open>2^53\<close>,
  the junction index is that value, and for an identifier without any decimal digit it is
  1. With \<open>hourFactor = Math.sin((i - 6) * Math.PI / 12)\<close> and
  \<open>baseFactor = junctionIndex * 100 + 300\<close>, the entry at index \<open>i\<close> has
  \<open>traffic = max(100, round(baseFactor + hourFactor * 300))\<close>, replaced by
  \<open>max(100, round(that - impact * 0.5 * (1 + hourFactor)))\<close> when the variant is
  \<open>after\<close> and the impact is neither a zero nor \<open>NaN\<close>, and
  \<open>before = round(baseFactor * 0.8)\<close>. Every operation is the one of the doubles, and
  \<open>Math.sin\<close> is the one of the platform.
\<close>

theorem flow_entry_values:
  "(\<forall>ds. junction_id j = CHR ''j'' # ds \<and> ds \<noteq> [] \<and> (\<forall>c\<in>set ds. is_decimal_digit c) \<and>
         0 < decimal_value ds \<and> decimal_value ds < 2 ^ 53
      \<longrightarrow> junctionIndex j = Fin (real (decimal_value ds))) \<and>
   ((\<forall>c\<in>set (junction_id j). \<not> is_decimal_digit c) \<longrightarrow> junctionIndex j = Fin 1) \<and>
   (\<forall>i. i < 24 \<longrightarrow>
      (let hf = msin (d_div (d_mul (d_sub (Fin (real i)) (Fin 6)) Math_PI_double) (Fin 12));
           base = d_add (d_mul (junctionIndex j) (Fin 100)) (Fin 300);
           unadjusted = Math_max (Fin 100) (Math_round (d_add base (d_mul hf (Fin 300))))
       in traffic (fst (generateMockTrafficFlowData msin clk ty j x k) ! i)
            = (if ty = ''after'' \<and> x \<noteq> Fin 0 \<and> x \<noteq> NegZero \<and> x \<noteq> NotANumber
               then Math_max (Fin 100)
                      (Math_round (d_sub unadjusted
                         (d_mul (d_mul x (Fin 0.5)) (d_add (Fin 1) hf))))
               else unadjusted) \<and>
          flow_point.before (fst (generateMockTrafficFlowData msin clk ty j x k) ! i)
            = Math_round (d_mul base (rnd 0.8))))"
proof (intro conjI allI impI)
  fix ds
  assume "junction_id j = CHR ''j'' # ds \<and> ds \<noteq> [] \<and> (\<forall>c\<in>set ds. is_decimal_digit c) \<and>
          0 < decimal_value ds \<and> decimal_value ds < 2 ^ 53"
  then show "junctionIndex j = Fin (real (decimal_value ds))"
    by (intro junctionIndex_digits) auto
next
  assume "\<forall>c\<in>set (junction_id j). \<not> is_decimal_digit c"
  then show "junctionIndex j = Fin 1" by (rule junctionIndex_no_digit)
next
  fix i :: nat
  assume "i < 24"
  then show "let hf = msin (d_div (d_mul (d_sub (Fin (real i)) (Fin 6)) Math_PI_double) (Fin 12));
           base = d_add (d_mul (junctionIndex j) (Fin 100)) (Fin 300);
           unadjusted = Math_max (Fin 100) (Math_round (d_add base (d_mul hf (Fin 300))))
       in traffic (fst (generateMockTrafficFlowData msin clk ty j x k) ! i)
            = (if ty = ''after'' \<and> x \<noteq> Fin 0 \<and> x \<noteq> NegZero \<and> x \<noteq> NotANumber
               then Math_max (Fin 100)
                      (Math_round (d_sub unadjusted
                         (d_mul (d_mul x (Fin 0.5)) (d_add (Fin 1) hf))))
               else unadjusted) \<and>
          flow_point.before (fst (generateMockTrafficFlowData msin clk ty j x k) ! i)
            = Math_round (d_mul base (rnd 0.8))"
    by (simp only: generate_nth flow_entry_def Let_def hourFactor_double_def baseFactor_def
          truthy_iff flow_point.simps)
qed

lemma noon_factor:
  "Math_sin_rounded (d_div (d_mul (d_sub (Fin (real 6)) (Fin 6)) Math_PI_double) (Fin 12)) = Fin 0"
  by (simp add: d_sub_def d_mul_def d_div_def zero_of_def Math_PI_double_def exact_values)

theorem flow_entry_values_witness:
  "junction_id scenario_junction = CHR ''j'' # ''1'' \<and> ''1'' \<noteq> [] \<and>
   is_decimal_digit (CHR ''1'') \<and> 0 < decimal_value ''1'' \<and> decimal_value ''1'' < 2 ^ 53 \<and>
   junctionIndex scenario_junction = Fin 1 \<and>
   junction_id lettered_junction = ''A'' \<and> \<not> is_decimal_digit (CHR ''A'') \<and>
   junctionIndex lettered_junction = Fin 1 \<and>
   (6::nat) < 24 \<and>
   Math_sin_rounded (d_div (d_mul (d_sub (Fin (real 6)) (Fin 6)) Math_PI_double) (Fin 12))
     = Fin 0 \<and>
   traffic (fst (generateMockTrafficFlowData Math_sin_rounded (fixed_clock 0) ''before''
                   scenario_junction (Fin 0) 0) ! 6) = Fin 400 \<and>
   traffic (fst (generateMockTrafficFlowData Math_sin_rounded (fixed_clock 0) ''after''
                   scenario_junction (Fin 132.5) 1) ! 6) = Fin 334 \<and>
   flow_point.before (fst (generateMockTrafficFlowData Math_sin_rounded (fixed_clock 0)
                             ''after'' scenario_junction (Fin 132.5) 1) ! 6) = Fin 320"
proof -
  let ?hf = "Math_sin_rounded
               (d_div (d_mul (d_sub (Fin (real 6)) (Fin 6)) Math_PI_double) (Fin 12))"
  note A = flow_entry_values [where j = scenario_junction and clk = "fixed_clock 0"
      and msin = Math_sin_rounded and ty = "''after''" and x = "Fin 132.5" and k = 1]
  note B = flow_entry_values [where j = scenario_junction and clk = "fixed_clock 0"
      and msin = Math_sin_rounded and ty = "''before''" and x = "Fin 0" and k = 0]
  have id1: "junction_id scenario_junction = CHR ''j'' # ''1''"
    by (simp add: scenario_junction_def)
  have dg: "is_decimal_digit (CHR ''1'')" by (simp add: is_decimal_digit_def)
  have dv: "decimal_value ''1'' = 1" by (simp add: decimal_value_def)
  from A have "junction_id scenario_junction = CHR ''j'' # ''1'' \<and> ''1'' \<noteq> [] \<and>
      (\<forall>c\<in>set ''1''. is_decimal_digit c) \<and> 0 < decimal_value ''1'' \<and>
      decimal_value ''1'' < 2 ^ 53
      \<longrightarrow> junctionIndex scenario_junction = Fin (real (decimal_value ''1''))"
    by blast
  with id1 dg dv have idx: "junctionIndex scenario_junction = Fin 1" by simp
  have id2: "junction_id lettered_junction = ''A''"
    by (simp add: lettered_junction_def scenario_junction_def)
  have nd: "\<not> is_decimal_digit (CHR ''A'')" by (simp add: is_decimal_digit_def)
  from flow_entry_values [where j = lettered_junction]
  have "(\<forall>c\<in>set (junction_id lettered_junction). \<not> is_decimal_digit c)
          \<longrightarrow> junctionIndex lettered_junction = Fin 1"
    by blast
  with id2 nd have idx2: "junctionIndex lettered_junction = Fin 1" by simp
  have base: "d_add (d_mul (Fin 1) (Fin 100)) (Fin 300) = Fin 400"
    by (simp add: d_mul_def exact_values)
  have un: "Math_max (Fin 100) (Math_round (d_add (Fin 400) (d_mul (Fin 0) (Fin 300))))
              = Fin 400"
    by (simp add: d_mul_def zero_of_def exact_values)
  have "\<lfloor>(1335 / 4 :: real) + 1 / 2\<rfloor> = 334" by linarith
  then have ro: "Math_round (Fin (1335 / 4)) = Fin 334" by simp
  have ad: "Math_max (Fin 100)
              (Math_round (d_sub (Fin 400)
                 (d_mul (d_mul (Fin 132.5) (Fin 0.5)) (d_add (Fin 1) (Fin 0))))) = Fin 334"
    using ro by (simp add: d_mul_def d_sub_def exact_values)
  have be: "Math_round (d_mul (Fin 400) (rnd 0.8)) = Fin 320"
    by (simp add: product_400_08)
  from A have "(6::nat) < 24 \<longrightarrow>
      (let hf = ?hf;
           base = d_add (d_mul (junctionIndex scenario_junction) (Fin 100)) (Fin 300);
           unadjusted = Math_max (Fin 100) (Math_round (d_add base (d_mul hf (Fin 300))))
       in traffic (fst (generateMockTrafficFlowData Math_sin_rounded (fixed_clock 0) ''after''
                          scenario_junction (Fin 132.5) 1) ! 6)
            = (if ''after'' = ''after'' \<and> Fin 132.5 \<noteq> Fin 0 \<and> Fin 132.5 \<noteq> NegZero \<and>
                  Fin 132.5 \<noteq> NotANumber
               then Math_max (Fin 100)
                      (Math_round (d_sub unadjusted
                         (d_mul (d_mul (Fin 132.5) (Fin 0.5)) (d_add (Fin 1) hf))))
               else unadjusted) \<and>
          flow_point.before (fst (generateMockTrafficFlowData Math_sin_rounded (fixed_clock 0)
                                    ''after'' scenario_junction (Fin 132.5) 1) ! 6)
            = Math_round (d_mul base (rnd 0.8)))"
    by blast
  then have a: "traffic (fst (generateMockTrafficFlowData Math_sin_rounded (fixed_clock 0)
                   ''after'' scenario_junction (Fin 132.5) 1) ! 6) = Fin 334 \<and>
     flow_point.before (fst (generateMockTrafficFlowData Math_sin_rounded (fixed_clock 0)
                             ''after'' scenario_junction (Fin 132.5) 1) ! 6) = Fin 320"
    unfolding Let_def noon_factor idx base un
    using ad be by simp
  from B have "(6::nat) < 24 \<longrightarrow>
      (let hf = ?hf;
           base = d_add (d_mul (junctionIndex scenario_junction) (Fin 100)) (Fin 300);
           unadjusted = Math_max (Fin 100) (Math_round (d_add base (d_mul hf (Fin 300))))
       in traffic (fst (generateMockTrafficFlowData Math_sin_rounded (fixed_clock 0) ''before''
                          scenario_junction (Fin 0) 0) ! 6)
            = (if ''before'' = ''after'' \<and> Fin 0 \<noteq> Fin 0 \<and> Fin 0 \<noteq> NegZero \<and>
                  Fin 0 \<noteq> NotANumber
               then Math_max (Fin 100)
                      (Math_round (d_sub unadjusted
                         (d_mul (d_mul (Fin 0) (Fin 0.5)) (d_add (Fin 1) hf))))
               else unadjusted) \<and>
          flow_point.before (fst (generateMockTrafficFlowData Math_sin_rounded (fixed_clock 0)
                                    ''before'' scenario_junction (Fin 0) 0) ! 6)
            = Math_round (d_mul base (rnd 0.8)))"
    by blast
  then have b: "traffic (fst (generateMockTrafficFlowData Math_sin_rounded (fixed_clock 0)
                   ''before'' scenario_junction (Fin 0) 0) ! 6) = Fin 400"
    unfolding Let_def noon_factor idx base un by simp
  from id1 dg dv idx id2 nd idx2 noon_factor a b show ?thesis by simp
qed

text \<open>
  C6 as stated fails: the identifier \<open>junction7\<close> has the numeric suffix 7, and its
  junction index is 1.
\<close>

theorem junctionIndex_suffix_counterexample:
  "junction_id junction7 = ''junction7'' \<and> spec_junctionIndex ''junction7'' = 7 \<and>
   junctionIndex junction7 = Fin 1"
proof -
  have i: "junction_id junction7 = ''junction7''"
    by (simp add: junction7_def scenario_junction_def)
  have s: "spec_junctionIndex ''junction7'' = 7"
    by (simp add: spec_junctionIndex_def is_decimal_digit_def decimal_value_def)
  have w: "white_prefix ''unction7'' = 0"
    by (simp add: white_prefix_def white1_def white2_def white3_def)
  have p: "parseInt ''unction7'' = NotANumber"
    by (simp add: parseInt_def w digit_in_def digit_table_def Let_def)
  have "junctionIndex junction7 = Fin 1"
    by (simp add: junctionIndex_def i p)
  with i s show ?thesis by blast
qed

end
